theory Spec2Isabelle
  imports Main
begin

section \<open>The AutoRestarter of dados/src/utils/youtube\_v2.js\<close>

text \<open>
  The class \<open>AutoRestarter\<close> is a watchdog living inside the process it supervises.
  Its object fields and the part of the process environment its methods touch (clock, disk,
  console, timers) are one record; each method is a function from that record to an
  outcome, which is a normal return, a thrown exception or a call of \<open>process.exit\<close>.
  Every method call runs to completion before the next one starts: the model does not
  interleave two calls at their \<open>await\<close> points, and the clock stands still during a
  call. \<open>getStats\<close> only reads fields and is left out.
\<close>

subsection \<open>Values\<close>

text \<open>
  JavaScript strings are lists of characters; the non-ASCII letters of the Portuguese
  messages are written as their UTF-8 bytes. A primitive value is \<open>undefined\<close>, a string
  or a number; \<open>a || b\<close> yields \<open>a\<close> when it is truthy.
\<close>

datatype prim = Undefined | Str string | Num int

fun truthy :: "prim \<Rightarrow> bool" where
  "truthy Undefined = False"
| "truthy (Str s) = (s \<noteq> [])"
| "truthy (Num n) = (n \<noteq> 0)"

definition orElse :: "prim \<Rightarrow> prim \<Rightarrow> prim" where
  "orElse a b = (if truthy a then a else b)"

definition digit :: "nat \<Rightarrow> char" where
  "digit d = char_of (48 + d)"

fun showNat :: "nat \<Rightarrow> string" where
  "showNat n = (if n < 10 then [digit n] else showNat (n div 10) @ [digit (n mod 10)])"

definition showInt :: "int \<Rightarrow> string" where
  "showInt i = (if i < 0 then CHR ''-'' # showNat (nat (- i)) else showNat (nat i))"

text \<open>
  What a template literal \<open>`${v}`\<close> renders; a number is an integer below \<open>10^21\<close>, which
  prints in decimal.
\<close>

fun render :: "prim \<Rightarrow> string" where
  "render Undefined = ''undefined''"
| "render (Str s) = s"
| "render (Num n) = showInt n"

text \<open>The payload of a log entry: any JSON-serialisable value.\<close>

datatype jv = JS string | JN int | JP prim | JO "(string \<times> jv) list"

text \<open>\<open>process.memoryUsage()\<close>, in bytes.\<close>

record mem =
  heapUsed :: int
  heapTotal :: int
  rss :: int
  external :: int

definition memJson :: "mem \<Rightarrow> jv" where
  "memJson m = JO [(''heapUsed'', JN (heapUsed m)), (''heapTotal'', JN (heapTotal m)),
                   (''rss'', JN (rss m)), (''external'', JN (external m))]"

text \<open>
  One line of the log file (\<open>logEvent\<close>, lines 418 to 425). The ISO 8601 timestamp is
  carried as the epoch milliseconds it denotes.
\<close>

record log_entry =
  le_timestamp :: int
  le_type :: string
  le_data :: jv
  le_pid :: int
  le_uptime :: int
  le_memoryUsage :: mem

text \<open>
  The object that \<open>saveRestartState\<close> serialises (lines 300 to 307), and what
  \<open>JSON.parse\<close> gives back for a file it accepts. A field that is absent from the document
  is \<open>None\<close>; \<open>sd_timestamp\<close> is the instant \<open>new Date(state.timestamp)\<close> denotes, \<open>None\<close>
  for an invalid date.
\<close>

record state_doc =
  sd_restartCount :: "int option"
  sd_lastRestart :: "int option"
  sd_timestamp :: "int option"
  sd_pid :: "int option"
  sd_memoryUsage :: "mem option"
  sd_uptime :: "int option"

text \<open>
  The file at the state path: missing, holding text that \<open>JSON.parse\<close> rejects (a truncated
  document is such a text), holding the JSON value \<open>null\<close>, holding another JSON value that
  has none of the fields (a number, a string, a boolean, an array), or holding an object.
\<close>

datatype state_file = Missing | Unparseable | ParsedNull | ParsedOther | ParsedObject state_doc

record child =
  killed :: bool

datatype effect =
    OnEvent string
  | SetInterval int
  | ConsoleLog string
  | ConsoleWarn string
  | ConsoleError string
  | Gc
  | CacheClear
  | ExecCmd string int
  | Kill string

text \<open>
  How a \<open>fs.writeFile\<close> on the state path ends. The call opens the file for writing,
  which empties it, and then writes the text. It completes; or it is refused before the
  file is opened and leaves the file as it was; or it fails after the file was emptied
  (a full disk) and leaves a truncated text.
\<close>

datatype write_mode = Completes | Refused | Torn

datatype exn = FsError string | TypeError string | SyntaxError string

fun exn_message :: "exn \<Rightarrow> string" where
  "exn_message (FsError m) = m"
| "exn_message (TypeError m) = m"
| "exn_message (SyntaxError m) = m"

subsection \<open>The process\<close>

text \<open>
  First the fields of \<open>this\<close> (constructor, lines 70 to 85; the two path fields are the
  fixed slots \<open>disk_log\<close> and \<open>disk_pid\<close> below), then the environment: what \<open>Date.now()\<close>,
  \<open>process.pid\<close>, \<open>process.uptime()\<close>, \<open>process.memoryUsage()\<close>, \<open>global.gc\<close>,
  \<open>global.messagesCache\<close> and \<open>process.env\<close> read, whether and how each file operation succeeds,
  the three files, the timers that will call \<open>process.exit\<close> (due time, exit code) and
  the other effects in the order they happened. Times are in milliseconds since the
  epoch; the uptime is read in whole seconds.
\<close>

record proc =
  restartCount :: int
  maxRestarts :: int
  restartCooldown :: int
  lastRestart :: int
  criticalErrors :: "string list"
  isShuttingDown :: bool
  childProcess :: "child option"
  clock :: int
  localOffset :: int
  pid :: int
  uptime :: int
  memoryUsage :: mem
  hasGc :: bool
  hasMessagesCache :: bool
  envRestarted :: string
  envRestartCount :: string
  logDirCreatable :: bool
  logWritable :: bool
  stateWrite :: write_mode
  stateReadable :: bool
  pidWritable :: bool
  disk_log :: "log_entry list"
  disk_state :: state_file
  disk_pid :: "int option"
  timers :: "(int \<times> int) list"
  trace :: "effect list"

datatype outcome = Returned proc | Threw exn proc | Exited int proc

fun stateOf :: "outcome \<Rightarrow> proc" where
  "stateOf (Returned s) = s"
| "stateOf (Threw e s) = s"
| "stateOf (Exited c s) = s"

text \<open>Sequencing: what follows a statement runs only when the statement returned.\<close>

fun andThen :: "outcome \<Rightarrow> (proc \<Rightarrow> outcome) \<Rightarrow> outcome" where
  "andThen (Returned s) f = f s"
| "andThen (Threw e s) f = Threw e s"
| "andThen (Exited c s) f = Exited c s"

fun seq :: "(proc \<Rightarrow> outcome) list \<Rightarrow> proc \<Rightarrow> outcome" where
  "seq [] s = Returned s"
| "seq (f # fs) s = andThen (f s) (seq fs)"

text \<open>\<open>try { body } catch (e) { handler }\<close>: only a thrown exception reaches the handler.\<close>

fun tryCatch :: "outcome \<Rightarrow> (exn \<Rightarrow> proc \<Rightarrow> outcome) \<Rightarrow> outcome" where
  "tryCatch (Threw e s) h = h e s"
| "tryCatch (Returned s) h = Returned s"
| "tryCatch (Exited c s) h = Exited c s"

definition emit :: "effect \<Rightarrow> proc \<Rightarrow> outcome" where
  "emit x s = Returned (s\<lparr>trace := trace s @ [x]\<rparr>)"

text \<open>\<open>setTimeout(() => process.exit(code), delay)\<close>.\<close>

definition setTimeoutExit :: "int \<Rightarrow> int \<Rightarrow> proc \<Rightarrow> outcome" where
  "setTimeoutExit delay code s = Returned (s\<lparr>timers := timers s @ [(clock s + delay, code)]\<rparr>)"

definition processExit :: "int \<Rightarrow> proc \<Rightarrow> outcome" where
  "processExit code s = Exited code s"

subsection \<open>The file system\<close>

definition fs_mkdir_logs :: "proc \<Rightarrow> outcome" where
  "fs_mkdir_logs s =
     (if logDirCreatable s then Returned s else Threw (FsError ''EACCES: mkdir'') s)"

definition fs_appendFile_log :: "log_entry \<Rightarrow> proc \<Rightarrow> outcome" where
  "fs_appendFile_log e s =
     (if logWritable s then Returned (s\<lparr>disk_log := disk_log s @ [e]\<rparr>)
      else Threw (FsError ''EACCES: append'') s)"

definition fs_writeFile_state :: "state_doc \<Rightarrow> proc \<Rightarrow> outcome" where
  "fs_writeFile_state d s =
     (case stateWrite s of
        Completes \<Rightarrow> Returned (s\<lparr>disk_state := ParsedObject d\<rparr>)
      | Refused \<Rightarrow> Threw (FsError ''EACCES: open'') s
      | Torn \<Rightarrow> Threw (FsError ''ENOSPC: write'') (s\<lparr>disk_state := Unparseable\<rparr>))"

text \<open>
  What the state path holds over the course of that call, in order: the old file, then,
  once the file is opened, an empty or partly written text, then the whole new text.
  Whoever reads the path while the call is under way, or after the process was stopped
  in the middle of it, finds one of these.
\<close>

definition fs_writeFile_state_moments :: "state_doc \<Rightarrow> proc \<Rightarrow> state_file list" where
  "fs_writeFile_state_moments d s =
     (case stateWrite s of
        Completes \<Rightarrow> [disk_state s, Unparseable, ParsedObject d]
      | Refused \<Rightarrow> [disk_state s]
      | Torn \<Rightarrow> [disk_state s, Unparseable])"

definition fs_writeFile_pid :: "int \<Rightarrow> proc \<Rightarrow> outcome" where
  "fs_writeFile_pid p s =
     (if pidWritable s then Returned (s\<lparr>disk_pid := Some p\<rparr>)
      else Threw (FsError ''EACCES: open'') s)"

definition fs_unlink_pid :: "proc \<Rightarrow> outcome" where
  "fs_unlink_pid s =
     (if disk_pid s = None then Threw (FsError ''ENOENT: unlink'') s
      else if pidWritable s then Returned (s\<lparr>disk_pid := None\<rparr>)
      else Threw (FsError ''EACCES: unlink'') s)"

subsection \<open>Text\<close>

definition a_acute :: string where "a_acute = [CHR 0xC3, CHR 0xA1]"
definition a_tilde :: string where "a_tilde = [CHR 0xC3, CHR 0xA3]"
definition c_cedilla :: string where "c_cedilla = [CHR 0xC3, CHR 0xA7]"
definition i_acute :: string where "i_acute = [CHR 0xC3, CHR 0xAD]"
definition o_acute :: string where "o_acute = [CHR 0xC3, CHR 0xB3]"
definition o_tilde :: string where "o_tilde = [CHR 0xC3, CHR 0xB5]"
definition cross_mark :: string where "cross_mark = [CHR 0xE2, CHR 0x9D, CHR 0x8C]"
definition warning_sign :: string where
  "warning_sign = [CHR 0xE2, CHR 0x9A, CHR 0xA0, CHR 0xEF, CHR 0xB8, CHR 0x8F]"
definition arrows :: string where "arrows = [CHR 0xF0, CHR 0x9F, CHR 0x94, CHR 0x84]"

text \<open>\<open>s.includes(p)\<close>: \<open>p\<close> occurs in \<open>s\<close>, character for character.\<close>

fun startsWith :: "string \<Rightarrow> string \<Rightarrow> bool" where
  "startsWith s [] = True"
| "startsWith [] (p # ps) = False"
| "startsWith (c # cs) (p # ps) = (c = p \<and> startsWith cs ps)"

fun str_includes :: "string \<Rightarrow> string \<Rightarrow> bool" where
  "str_includes [] p = (p = [])"
| "str_includes (c # cs) p = (startsWith (c # cs) p \<or> str_includes cs p)"

subsection \<open>logEvent (lines 412 to 433)\<close>

definition mkEntry :: "string \<Rightarrow> jv \<Rightarrow> proc \<Rightarrow> log_entry" where
  "mkEntry ty d s = \<lparr>le_timestamp = clock s, le_type = ty, le_data = d, le_pid = pid s,
                     le_uptime = uptime s, le_memoryUsage = memoryUsage s\<rparr>"

definition logEvent :: "string \<Rightarrow> jv \<Rightarrow> proc \<Rightarrow> outcome" where
  "logEvent ty d s =
     tryCatch (seq [fs_mkdir_logs, (\<lambda>s. fs_appendFile_log (mkEntry ty d s) s)] s)
       (\<lambda>error. emit (ConsoleError (cross_mark @ '' Erro ao escrever log: '' @ exn_message error)))"

subsection \<open>Saving, cleaning up, exiting\<close>

text \<open>\<open>saveRestartState\<close> (lines 298 to 317).\<close>

definition currentDoc :: "proc \<Rightarrow> state_doc" where
  "currentDoc s = \<lparr>sd_restartCount = Some (restartCount s), sd_lastRestart = Some (lastRestart s),
                    sd_timestamp = Some (clock s), sd_pid = Some (pid s),
                    sd_memoryUsage = Some (memoryUsage s), sd_uptime = Some (uptime s)\<rparr>"

definition saveRestartState :: "proc \<Rightarrow> outcome" where
  "saveRestartState s =
     tryCatch (seq [(\<lambda>s. fs_writeFile_state (currentDoc s) s), (\<lambda>s. fs_writeFile_pid (pid s) s)] s)
       (\<lambda>error. emit (ConsoleWarn (warning_sign @ '' Erro ao salvar estado: '' @ exn_message error)))"

definition saveRestartState_moments :: "proc \<Rightarrow> state_file list" where
  "saveRestartState_moments s = fs_writeFile_state_moments (currentDoc s) s"

text \<open>
  \<open>performEmergencyCleanup\<close> (lines 261 to 293). \<open>exec\<close> only starts the shell command;
  what its callback prints later is not part of the call.
\<close>

definition tempDirs :: "string list" where
  "tempDirs = [''/tmp/nazuna-*'', ''./temp/*'']"

definition performEmergencyCleanup :: "proc \<Rightarrow> outcome" where
  "performEmergencyCleanup s =
     tryCatch
       (seq ([(\<lambda>s. if hasGc s then emit Gc s else Returned s),
              (\<lambda>s. if hasMessagesCache s then emit CacheClear s else Returned s)]
             @ map (\<lambda>tempPattern s.
                      tryCatch (emit (ExecCmd (''rm -rf '' @ tempPattern) 5000) s) (\<lambda>e. Returned))
                   tempDirs) s)
       (\<lambda>error. emit (ConsoleWarn (warning_sign @ '' Erro na limpeza emergencial: '' @ exn_message error)))"

text \<open>\<open>restartProcess\<close> (lines 355 to 369).\<close>

definition restartProcess :: "proc \<Rightarrow> outcome" where
  "restartProcess s =
     tryCatch
       (seq [emit (ConsoleLog (arrows @ '' [RENDER RESTART] Solicitando rein'' @ i_acute
                                @ ''cio limpo via process.exit(0)...'')),
             logEvent ''restart_initiated_render''
               (JS (''O Render detectar'' @ a_acute @ '' o desligamento e reiniciar'' @ a_acute
                    @ '' o container automaticamente.'')),
             setTimeoutExit 2000 0] s)
       (\<lambda>error s. andThen
          (emit (ConsoleError (cross_mark @ '' Falha na solicita'' @ c_cedilla @ a_tilde
                               @ ''o de rein'' @ i_acute @ ''cio: '' @ exn_message error)) s)
          (processExit 1))"

text \<open>\<open>forceRestart\<close> (lines 243 to 256).\<close>

definition forceRestart :: "string \<Rightarrow> proc \<Rightarrow> outcome" where
  "forceRestart reason s =
     andThen (tryCatch (seq [logEvent ''force_restart'' (JS reason), saveRestartState] s)
                (\<lambda>e. Returned))
       (setTimeoutExit 1000 1)"

text \<open>\<open>gracefulShutdown\<close> (lines 374 to 407).\<close>

definition killChild :: "proc \<Rightarrow> outcome" where
  "killChild s =
     (case childProcess s of
        None \<Rightarrow> Returned s
      | Some c \<Rightarrow>
          if \<not> killed c
          then Returned (s\<lparr>childProcess := Some (c\<lparr>killed := True\<rparr>),
                           trace := trace s @ [Kill ''SIGTERM'']\<rparr>)
          else Returned s)"

definition gracefulShutdown :: "string \<Rightarrow> proc \<Rightarrow> outcome" where
  "gracefulShutdown signal s =
     (if isShuttingDown s then Returned s
      else
        tryCatch
          (seq [logEvent ''graceful_shutdown'' (JS signal),
                (\<lambda>s. tryCatch (fs_unlink_pid s) (\<lambda>e. Returned)),
                killChild,
                (\<lambda>s. if hasGc s then emit Gc s else Returned s),
                setTimeoutExit 2000 (if signal = ''MAX_RESTARTS_REACHED'' then 1 else 0)]
             (s\<lparr>isShuttingDown := True\<rparr>))
          (\<lambda>error s. andThen
             (emit (ConsoleError (cross_mark @ '' Erro durante shutdown: '' @ exn_message error)) s)
             (processExit 1)))"

subsection \<open>initiateRestart (lines 197 to 238)\<close>

definition initiateRestart :: "string \<Rightarrow> proc \<Rightarrow> outcome" where
  "initiateRestart reason s =
     (if isShuttingDown s then Returned s
      else
        let now = clock s in
        if now - lastRestart s < restartCooldown s
        then logEvent ''restart_blocked''
               (JS (''Restart bloqueado por cooldown. Raz'' @ a_tilde @ ''o: '' @ reason)) s
        else if restartCount s \<ge> maxRestarts s
        then seq [(\<lambda>s. logEvent ''restart_limit''
                         (JS (''Limite de '' @ showInt (maxRestarts s) @ '' reinicializa'' @ c_cedilla
                              @ o_tilde @ ''es atingido. Sistema ser'' @ a_acute @ '' finalizado.'')) s),
                  gracefulShutdown ''MAX_RESTARTS_REACHED''] s
        else
          seq [(\<lambda>s. logEvent ''restart_initiated''
                      (JO [(''reason'', JS reason), (''count'', JN (restartCount s)),
                           (''maxRestarts'', JN (maxRestarts s))]) s),
               (\<lambda>s. tryCatch (seq [performEmergencyCleanup, saveRestartState, restartProcess] s)
                      (\<lambda>error s. andThen
                         (emit (ConsoleError (cross_mark @ '' Erro durante reinicializa'' @ c_cedilla
                                              @ a_tilde @ ''o: '' @ exn_message error)) s)
                         (forceRestart (''Falha no processo de reinicializa'' @ c_cedilla @ a_tilde
                                        @ ''o''))))]
            (s\<lparr>restartCount := restartCount s + 1, lastRestart := now, isShuttingDown := True\<rparr>))"

subsection \<open>handleCriticalError (lines 134 to 164)\<close>

text \<open>
  The value an \<open>uncaughtException\<close> or \<open>unhandledRejection\<close> event carries: \<open>None\<close> for
  \<open>null\<close> or \<open>undefined\<close>, else the properties the handler reads and what \<open>toString()\<close>
  returns. A rejection can carry any value, so \<open>message\<close> need not be a string. The
  model takes \<open>toString\<close> to be callable and a message to be \<open>undefined\<close>, a string or a
  number: a value without \<open>toString\<close>, and a message that has an \<open>includes\<close> of its own (an
  array), are outside it.
\<close>

record js_error =
  e_message :: prim
  e_toString :: string
  e_code :: prim
  e_errno :: prim
  e_stack :: string

definition errorMessageOf :: "js_error option \<Rightarrow> prim" where
  "errorMessageOf error =
     (case error of
        None \<Rightarrow> Str ''Erro desconhecido''
      | Some e \<Rightarrow> orElse (e_message e) (orElse (Str (e_toString e)) (Str ''Erro desconhecido'')))"

definition errorCodeOf :: "js_error option \<Rightarrow> prim" where
  "errorCodeOf error =
     (case error of
        None \<Rightarrow> Str ''UNKNOWN''
      | Some e \<Rightarrow> orElse (e_code e) (orElse (e_errno e) (Str ''UNKNOWN'')))"

definition errorStackOf :: "js_error option \<Rightarrow> string" where
  "errorStackOf error =
     (case error of
        None \<Rightarrow> ''Stack n'' @ a_tilde @ ''o dispon'' @ i_acute @ ''vel''
      | Some e \<Rightarrow> if e_stack e \<noteq> [] then e_stack e
                  else ''Stack n'' @ a_tilde @ ''o dispon'' @ i_acute @ ''vel'')"

text \<open>
  The test of lines 150 to 152 on a message that is a string:
  \<open>criticalErrors.some(c => errorMessage.includes(c) || errorCode === c)\<close>.
\<close>

definition needsRestart :: "string list \<Rightarrow> string \<Rightarrow> prim \<Rightarrow> bool" where
  "needsRestart patterns errorMessage errorCode =
     list_ex (\<lambda>criticalError. str_includes errorMessage criticalError \<or> errorCode = Str criticalError)
       patterns"

text \<open>
  On a message that is no string the first call of \<open>errorMessage.includes\<close> throws a
  TypeError; \<open>some\<close> on an empty array calls nothing.
\<close>

definition classify :: "string list \<Rightarrow> prim \<Rightarrow> prim \<Rightarrow> exn + bool" where
  "classify patterns errorMessage errorCode =
     (case errorMessage of
        Str m \<Rightarrow> Inr (needsRestart patterns m errorCode)
      | _ \<Rightarrow> if patterns = [] then Inr False
             else Inl (TypeError ''errorMessage.includes is not a function''))"

definition handleCriticalError_try :: "string \<Rightarrow> js_error option \<Rightarrow> proc \<Rightarrow> outcome" where
  "handleCriticalError_try ty error s =
     (let errorMessage = errorMessageOf error; errorCode = errorCodeOf error in
      seq [(\<lambda>s. logEvent ''critical_error''
                  (JO [(''type'', JS ty), (''message'', JP errorMessage), (''code'', JP errorCode),
                       (''stack'', JS (errorStackOf error)), (''timestamp'', JN (clock s)),
                       (''memoryUsage'', memJson (memoryUsage s)),
                       (''restartCount'', JN (restartCount s))]) s),
           (\<lambda>s. case classify (criticalErrors s) errorMessage errorCode of
                  Inl e \<Rightarrow> Threw e s
                | Inr True \<Rightarrow>
                    initiateRestart (''Erro cr'' @ i_acute @ ''tico detectado: '' @ render errorCode
                                     @ '' - '' @ render errorMessage) s
                | Inr False \<Rightarrow>
                    emit (ConsoleError (cross_mark @ '' Erro n'' @ a_tilde @ ''o cr'' @ i_acute
                                        @ ''tico capturado ('' @ ty @ ''): '' @ render errorMessage)) s)]
        s)"

definition handleCriticalError :: "string \<Rightarrow> js_error option \<Rightarrow> proc \<Rightarrow> outcome" where
  "handleCriticalError ty error s =
     tryCatch (handleCriticalError_try ty error s)
       (\<lambda>logError s. andThen
          (emit (ConsoleError (cross_mark @ '' Erro ao processar erro cr'' @ i_acute @ ''tico: ''
                               @ exn_message logError)) s)
          (forceRestart ''Falha no sistema de logs''))"

subsection \<open>checkMemoryUsage (lines 169 to 192)\<close>

text \<open>
  \<open>Math.round(bytes / 1024 / 1024)\<close>: the division by a power of two is exact on the
  byte counts of a process, and \<open>Math.round\<close> rounds a half upwards.
\<close>

definition roundMB :: "int \<Rightarrow> int" where
  "roundMB bytes = (bytes + 524288) div 1048576"

definition checkMemoryUsage :: "proc \<Rightarrow> outcome" where
  "checkMemoryUsage s =
     tryCatch
       (let memUsage = memoryUsage s;
            memUsedMB = roundMB (heapUsed memUsage);
            memTotalMB = roundMB (heapTotal memUsage) in
        seq [(\<lambda>s. if memUsedMB > 512
                  then logEvent ''high_memory''
                         (JO [(''heapUsed'', JN memUsedMB), (''heapTotal'', JN memTotalMB),
                              (''rss'', JN (roundMB (rss memUsage))),
                              (''external'', JN (roundMB (external memUsage)))]) s
                  else Returned s),
             (\<lambda>s. if memUsedMB > 1024
                  then initiateRestart (''Uso cr'' @ i_acute @ ''tico de mem'' @ o_acute @ ''ria: ''
                                        @ showInt memUsedMB @ ''MB'') s
                  else Returned s)] s)
       (\<lambda>error. emit (ConsoleError (cross_mark @ '' Erro ao verificar uso de mem'' @ o_acute
                                   @ ''ria: '' @ exn_message error)))"

subsection \<open>loadRestartState (lines 322 to 350)\<close>

text \<open>
  \<open>toDateString()\<close> prints the calendar date of an instant in local time, and
  \<open>Invalid Date\<close> for an invalid one; two valid dates print the same text exactly when
  they fall on the same local day. The text is modelled by the number of that day. The
  offset of local time is one number for the process: a change of daylight-saving time
  between two instants is not modelled.
\<close>

definition toDateString :: "proc \<Rightarrow> int option \<Rightarrow> int option" where
  "toDateString s t = map_option (\<lambda>ms. (ms + localOffset s) div 86400000) t"

definition orZero :: "int option \<Rightarrow> int" where
  "orZero v = (case v of None \<Rightarrow> 0 | Some n \<Rightarrow> if n \<noteq> 0 then n else 0)"

definition noFields :: state_doc where
  "noFields = \<lparr>sd_restartCount = None, sd_lastRestart = None, sd_timestamp = None,
               sd_pid = None, sd_memoryUsage = None, sd_uptime = None\<rparr>"

definition pidJson :: "int option \<Rightarrow> jv" where
  "pidJson p = (case p of None \<Rightarrow> JP Undefined | Some n \<Rightarrow> JN n)"

definition loadFrom :: "state_doc \<Rightarrow> proc \<Rightarrow> outcome" where
  "loadFrom state s =
     (let stateDate = toDateString s (sd_timestamp state);
          today = toDateString s (Some (clock s)) in
      if stateDate = today
      then seq [(\<lambda>s. logEvent ''state_loaded''
                       (JO [(''previousRestarts'', JN (restartCount s)),
                            (''previousPid'', pidJson (sd_pid state))]) s)]
             (s\<lparr>restartCount := orZero (sd_restartCount state),
                lastRestart := orZero (sd_lastRestart state)\<rparr>)
      else Returned (s\<lparr>restartCount := 0, lastRestart := 0\<rparr>))"

definition loadRestartState_try :: "proc \<Rightarrow> outcome" where
  "loadRestartState_try s =
     (if \<not> stateReadable s then Threw (FsError ''EACCES: open'') s
      else case disk_state s of
        Missing \<Rightarrow> Threw (FsError ''ENOENT: open'') s
      | Unparseable \<Rightarrow> Threw (SyntaxError ''Unexpected token in JSON'') s
      | ParsedNull \<Rightarrow> Threw (TypeError ''Cannot read properties of null'') s
      | ParsedOther \<Rightarrow> loadFrom noFields s
      | ParsedObject state \<Rightarrow> loadFrom state s)"

definition loadRestartState :: "proc \<Rightarrow> outcome" where
  "loadRestartState s =
     tryCatch (loadRestartState_try s)
       (\<lambda>error s. Returned (s\<lparr>restartCount := 0, lastRestart := 0\<rparr>))"

subsection \<open>start, stop, manualRestart, the warning handler (lines 438 to 488, 106 to 110)\<close>

definition start :: "proc \<Rightarrow> outcome" where
  "start s =
     tryCatch
       (seq [loadRestartState,
             (\<lambda>s. logEvent ''auto_restart_started''
                    (JO [(''restartCount'', JN (restartCount s)), (''maxRestarts'', JN (maxRestarts s)),
                         (''pid'', JN (pid s))]) s),
             (\<lambda>s. if envRestarted s = ''true''
                  then logEvent ''restart_success''
                         (JO [(''previousRestartCount'',
                               JS (if envRestartCount s \<noteq> [] then envRestartCount s else ''unknown''))]) s
                  else Returned s)] s)
       (\<lambda>error. emit (ConsoleError (cross_mark @ '' Erro ao iniciar sistema de auto-restart: ''
                                   @ exn_message error)))"

definition stop :: "proc \<Rightarrow> outcome" where
  "stop s = logEvent ''auto_restart_stopped'' (JS ''Manual stop'') (s\<lparr>isShuttingDown := True\<rparr>)"

text \<open>The parameter of \<open>manualRestart\<close> has a default: \<open>None\<close> is a call without argument.\<close>

definition manualRestart :: "string option \<Rightarrow> proc \<Rightarrow> outcome" where
  "manualRestart arg s =
     (let reason = (case arg of
                      None \<Rightarrow> ''Reinicializa'' @ c_cedilla @ a_tilde @ ''o manual''
                    | Some r \<Rightarrow> r) in
      seq [logEvent ''manual_restart'' (JS reason), initiateRestart reason] s)"

definition onWarning :: "string \<Rightarrow> string \<Rightarrow> proc \<Rightarrow> outcome" where
  "onWarning name message s =
     (if name = ''MaxListenersExceededWarning''
      then logEvent ''warning'' (JS (''MaxListeners exceeded: '' @ message)) s
      else Returned s)"

subsection \<open>The constructor (lines 69 to 129)\<close>

text \<open>
  The constructor sets the fields, then \<open>setupErrorHandlers\<close> and \<open>setupGracefulShutdown\<close>
  register the handlers and the memory timer.
\<close>

definition constructor :: "proc \<Rightarrow> proc" where
  "constructor env =
     env\<lparr>restartCount := 0,
         maxRestarts := 5,
         restartCooldown := 30000,
         lastRestart := 0,
         criticalErrors := [''ENOSPC'', ''ENOMEM'', ''EMFILE'', ''ECONNRESET'', ''ERR_UNHANDLED_ERROR'',
                            ''UnhandledPromiseRejectionWarning''],
         isShuttingDown := False,
         childProcess := None,
         trace := trace env @ [OnEvent ''uncaughtException'', OnEvent ''unhandledRejection'',
                               OnEvent ''warning'', SetInterval 60000,
                               OnEvent ''SIGTERM'', OnEvent ''SIGINT'', OnEvent ''SIGUSR2'']\<rparr>"

subsection \<open>The life of the process\<close>


datatype call =
    Start
  | Stop
  | ManualRestart "string option"
  | HandleCriticalError string "js_error option"
  | CheckMemoryUsage
  | InitiateRestart string
  | ForceRestart string
  | GracefulShutdown string
  | SaveRestartState
  | LoadRestartState
  | PerformEmergencyCleanup
  | RestartProcess
  | LogEvent string jv
  | OnWarning string string

fun run :: "call \<Rightarrow> proc \<Rightarrow> outcome" where
  "run Start s = start s"
| "run Stop s = stop s"
| "run (ManualRestart arg) s = manualRestart arg s"
| "run (HandleCriticalError ty error) s = handleCriticalError ty error s"
| "run CheckMemoryUsage s = checkMemoryUsage s"
| "run (InitiateRestart reason) s = initiateRestart reason s"
| "run (ForceRestart reason) s = forceRestart reason s"
| "run (GracefulShutdown signal) s = gracefulShutdown signal s"
| "run SaveRestartState s = saveRestartState s"
| "run LoadRestartState s = loadRestartState s"
| "run PerformEmergencyCleanup s = performEmergencyCleanup s"
| "run RestartProcess s = restartProcess s"
| "run (LogEvent ty d) s = logEvent ty d s"
| "run (OnWarning name message) s = onWarning name message s"

text \<open>
  The environment moves on by itself: time passes, memory fills, permissions change,
  other code of the program sets \<open>childProcess\<close>. \<open>withEnvironmentOf w s\<close> is \<open>s\<close>
  with all of that as it is in \<open>w\<close>; the supervisor's own fields, the three files, the
  timers and the trace stay.
\<close>

definition withEnvironmentOf :: "proc \<Rightarrow> proc \<Rightarrow> proc" where
  "withEnvironmentOf w s =
     s\<lparr>childProcess := childProcess w, clock := clock w, localOffset := localOffset w,
       pid := pid w, uptime := uptime w, memoryUsage := memoryUsage w, hasGc := hasGc w,
       hasMessagesCache := hasMessagesCache w, envRestarted := envRestarted w,
       envRestartCount := envRestartCount w, logDirCreatable := logDirCreatable w,
       logWritable := logWritable w, stateWrite := stateWrite w,
       stateReadable := stateReadable w, pidWritable := pidWritable w\<rparr>"

text \<open>
  When the process has ended, the platform launches it again: a new object is
  constructed over the same disk, with no timer pending.
\<close>

definition relaunch :: "proc \<Rightarrow> proc" where
  "relaunch s = constructor (s\<lparr>timers := [], trace := []\<rparr>)"

datatype event = Call call | World proc | Relaunch

fun occur :: "event \<Rightarrow> proc \<Rightarrow> proc" where
  "occur (Call c) s = stateOf (run c s)"
| "occur (World w) s = withEnvironmentOf w s"
| "occur Relaunch s = relaunch s"

fun history :: "event list \<Rightarrow> proc \<Rightarrow> proc" where
  "history [] s = s"
| "history (e # es) s = history es (occur e s)"

subsection \<open>Names for what the methods write\<close>

text \<open>
  The payloads and messages of the methods above, the console line of a failed log write
  and of a failed save, and what cleanup and the kill of the child add to the trace.
\<close>

definition blockedText :: "string \<Rightarrow> jv" where
  "blockedText reason = JS (''Restart bloqueado por cooldown. Raz'' @ a_tilde @ ''o: '' @ reason)"

definition limitText :: "int \<Rightarrow> jv" where
  "limitText n = JS (''Limite de '' @ showInt n @ '' reinicializa'' @ c_cedilla @ o_tilde
                     @ ''es atingido. Sistema ser'' @ a_acute @ '' finalizado.'')"

definition initiatedData :: "string \<Rightarrow> int \<Rightarrow> int \<Rightarrow> jv" where
  "initiatedData reason count limit =
     JO [(''reason'', JS reason), (''count'', JN count), (''maxRestarts'', JN limit)]"

definition renderText :: jv where
  "renderText = JS (''O Render detectar'' @ a_acute @ '' o desligamento e reiniciar'' @ a_acute
                    @ '' o container automaticamente.'')"

definition renderNotice :: effect where
  "renderNotice = ConsoleLog (arrows @ '' [RENDER RESTART] Solicitando rein'' @ i_acute
                              @ ''cio limpo via process.exit(0)...'')"

definition loadedData :: "state_doc \<Rightarrow> jv" where
  "loadedData d = JO [(''previousRestarts'', JN (orZero (sd_restartCount d))),
                      (''previousPid'', pidJson (sd_pid d))]"

definition criticalData :: "string \<Rightarrow> js_error option \<Rightarrow> proc \<Rightarrow> jv" where
  "criticalData ty error s =
     JO [(''type'', JS ty), (''message'', JP (errorMessageOf error)),
         (''code'', JP (errorCodeOf error)), (''stack'', JS (errorStackOf error)),
         (''timestamp'', JN (clock s)), (''memoryUsage'', memJson (memoryUsage s)),
         (''restartCount'', JN (restartCount s))]"

definition criticalReason :: "js_error option \<Rightarrow> string" where
  "criticalReason error =
     ''Erro cr'' @ i_acute @ ''tico detectado: '' @ render (errorCodeOf error) @ '' - ''
     @ render (errorMessageOf error)"

definition notCriticalText :: "string \<Rightarrow> js_error option \<Rightarrow> effect" where
  "notCriticalText ty error =
     ConsoleError (cross_mark @ '' Erro n'' @ a_tilde @ ''o cr'' @ i_acute @ ''tico capturado (''
                   @ ty @ ''): '' @ render (errorMessageOf error))"

definition handlerText :: "exn \<Rightarrow> effect" where
  "handlerText e =
     ConsoleError (cross_mark @ '' Erro ao processar erro cr'' @ i_acute @ ''tico: '' @ exn_message e)"

definition usedMB :: "proc \<Rightarrow> int" where
  "usedMB s = roundMB (heapUsed (memoryUsage s))"

definition highMemoryData :: "proc \<Rightarrow> jv" where
  "highMemoryData s =
     JO [(''heapUsed'', JN (roundMB (heapUsed (memoryUsage s)))),
         (''heapTotal'', JN (roundMB (heapTotal (memoryUsage s)))),
         (''rss'', JN (roundMB (rss (memoryUsage s)))),
         (''external'', JN (roundMB (external (memoryUsage s))))]"

definition memoryReason :: "int \<Rightarrow> string" where
  "memoryReason mb = ''Uso cr'' @ i_acute @ ''tico de mem'' @ o_acute @ ''ria: '' @ showInt mb @ ''MB''"

definition startedData :: "proc \<Rightarrow> jv" where
  "startedData s = JO [(''restartCount'', JN (restartCount s)), (''maxRestarts'', JN (maxRestarts s)),
                       (''pid'', JN (pid s))]"

definition successData :: "proc \<Rightarrow> jv" where
  "successData s = JO [(''previousRestartCount'',
                        JS (if envRestartCount s \<noteq> [] then envRestartCount s else ''unknown''))]"

definition logFailure :: "proc \<Rightarrow> effect list" where
  "logFailure s =
     (if logDirCreatable s
      then if logWritable s then []
           else [ConsoleError (cross_mark @ '' Erro ao escrever log: '' @ ''EACCES: append'')]
      else [ConsoleError (cross_mark @ '' Erro ao escrever log: '' @ ''EACCES: mkdir'')])"

definition saveFailure :: "proc \<Rightarrow> effect list" where
  "saveFailure s =
     (case stateWrite s of
        Completes \<Rightarrow> if pidWritable s then []
                     else [ConsoleWarn (warning_sign @ '' Erro ao salvar estado: '' @ ''EACCES: open'')]
      | Refused \<Rightarrow> [ConsoleWarn (warning_sign @ '' Erro ao salvar estado: '' @ ''EACCES: open'')]
      | Torn \<Rightarrow> [ConsoleWarn (warning_sign @ '' Erro ao salvar estado: '' @ ''ENOSPC: write'')])"

definition killEffects :: "proc \<Rightarrow> effect list" where
  "killEffects s =
     (case childProcess s of None \<Rightarrow> [] | Some c \<Rightarrow> if killed c then [] else [Kill ''SIGTERM''])"

definition cleanupEffects :: "proc \<Rightarrow> effect list" where
  "cleanupEffects s =
     (if hasGc s then [Gc] else []) @ (if hasMessagesCache s then [CacheClear] else [])
     @ [ExecCmd ''rm -rf /tmp/nazuna-*'' 5000, ExecCmd ''rm -rf ./temp/*'' 5000]"

text \<open>
  The process once a restart is initiated (lines 215 to 217); the process once \<open>start\<close>
  has loaded the state and logged \<open>auto_restart_started\<close>; whether the document in the state
  file is of today.
\<close>

definition restarted :: "proc \<Rightarrow> proc" where
  "restarted s = s\<lparr>restartCount := restartCount s + 1, lastRestart := clock s, isShuttingDown := True\<rparr>"

definition started :: "proc \<Rightarrow> proc" where
  "started s = stateOf (logEvent ''auto_restart_started'' (startedData (stateOf (loadRestartState s)))
                          (stateOf (loadRestartState s)))"

definition sameDay :: "proc \<Rightarrow> state_doc \<Rightarrow> bool" where
  "sameDay s d = (toDateString s (sd_timestamp d) = toDateString s (Some (clock s)))"

subsection \<open>Invariants\<close>

text \<open>
  The policy fields and the constructor's patterns; the bound on the counter, in the object
  and in the state file; the log lines of the two types that mark the start of a restart
  or of a shutdown.
\<close>

definition policy :: "proc \<Rightarrow> int \<times> int \<times> string list" where
  "policy s = (maxRestarts s, restartCooldown s, criticalErrors s)"

definition sixPatterns :: "string list" where
  "sixPatterns = [''ENOSPC'', ''ENOMEM'', ''EMFILE'', ''ECONNRESET'', ''ERR_UNHANDLED_ERROR'',
                  ''UnhandledPromiseRejectionWarning'']"

definition diskBounded :: "int \<Rightarrow> state_file \<Rightarrow> bool" where
  "diskBounded m f = (case f of ParsedObject d \<Rightarrow> orZero (sd_restartCount d) \<le> m | _ \<Rightarrow> True)"

definition bounded :: "proc \<Rightarrow> bool" where
  "bounded s = (0 \<le> maxRestarts s \<and> restartCount s \<le> maxRestarts s
                \<and> diskBounded (maxRestarts s) (disk_state s))"

definition marked :: "string \<Rightarrow> bool" where
  "marked ty = (ty = ''restart_initiated'' \<or> ty = ''graceful_shutdown'')"

definition marks :: "proc \<Rightarrow> log_entry list" where
  "marks s = filter (\<lambda>e. marked (le_type e)) (disk_log s)"

text \<open>
  What every call respects: the policy stays, a bounded counter stays bounded, and once
  the process is shutting down it keeps doing so and writes no further marking line. A
  process is standing when it has the constructor's policy and a bounded counter.
\<close>

definition moves :: "proc \<Rightarrow> proc \<Rightarrow> bool" where
  "moves s s' =
     (policy s' = policy s \<and> (if bounded s then bounded s' else True)
      \<and> (if isShuttingDown s then isShuttingDown s' \<and> marks s' = marks s else True))"


text \<open>
  The events of one lifetime of the process: a relaunch starts another one, and other
  code calling \<open>logEvent\<close> itself with a marking type is left out.
\<close>

fun sameLifetime :: "event \<Rightarrow> bool" where
  "sameLifetime (Call (LogEvent ty d)) = (\<not> marked ty)"
| "sameLifetime (Call c) = True"
| "sameLifetime (World w) = True"
| "sameLifetime Relaunch = False"

subsection \<open>Example hosts\<close>

text \<open>
  A fresh deployment at 10:00 UTC of 2 November 2025, with a writable disk and nothing
  on it, and the errors it may see: a full disk as Node reports it, an error whose
  message has a pattern in lower case only, a rejection whose message is a number.
\<close>

definition fresh_host :: proc where
  "fresh_host =
     \<lparr>restartCount = 0, maxRestarts = 0, restartCooldown = 0, lastRestart = 0,
      criticalErrors = [], isShuttingDown = False, childProcess = None,
      clock = 1762077600000, localOffset = 0, pid = 4242, uptime = 12,
      memoryUsage = \<lparr>heapUsed = 100000000, heapTotal = 150000000, rss = 200000000,
                      external = 5000000\<rparr>,
      hasGc = False, hasMessagesCache = False, envRestarted = [], envRestartCount = [],
      logDirCreatable = True, logWritable = True, stateWrite = Completes,
      stateReadable = True, pidWritable = True,
      disk_log = [], disk_state = Missing, disk_pid = None, timers = [], trace = []\<rparr>"

definition enospc :: js_error where
  "enospc = \<lparr>e_message = Str ''ENOSPC: no space left on device, write'',
             e_toString = ''Error: ENOSPC: no space left on device, write'',
             e_code = Str ''ENOSPC'', e_errno = Num (- 28), e_stack = ''Error: ENOSPC at write''\<rparr>"

definition timeout_error :: js_error where
  "timeout_error = \<lparr>e_message = Str ''socket hang up: enospc'', e_toString = ''Error: socket hang up'',
                    e_code = Str ''ETIMEDOUT'', e_errno = Undefined, e_stack = []\<rparr>"

definition odd_rejection :: js_error where
  "odd_rejection = \<lparr>e_message = Num 42, e_toString = ''[object Object]'', e_code = Undefined,
                    e_errno = Undefined, e_stack = []\<rparr>"

text \<open>
  Processes on that host: one whose last restart was initiated ten seconds ago; one at
  the limit with the cooldown elapsed; the state file left by a fifth restart ten seconds
  ago and the process that has just loaded it; the process relaunched ten seconds after a
  first restart.
\<close>

definition recent_host :: proc where
  "recent_host = (constructor fresh_host)\<lparr>lastRestart := 1762077590000\<rparr>"


definition fifth_file :: state_file where
  "fifth_file = ParsedObject \<lparr>sd_restartCount = Some 5, sd_lastRestart = Some 1762077590000,
                               sd_timestamp = Some 1762077590000, sd_pid = Some 4100,
                               sd_memoryUsage = None, sd_uptime = Some 3600\<rparr>"


definition soon_host :: proc where
  "soon_host = (relaunch (stateOf (initiateRestart ''ENOSPC'' (constructor fresh_host))))
                 \<lparr>clock := 1762077610000\<rparr>"

text \<open>
  A process that received SIGTERM and what happens to it afterwards; a host where the log
  cannot be written.
\<close>

definition stopping_host :: proc where
  "stopping_host = stateOf (gracefulShutdown ''SIGTERM'' (constructor fresh_host))"

definition afterwards :: "event list" where
  "afterwards = [Call (InitiateRestart ''again''), World (fresh_host\<lparr>clock := 1762077601000\<rparr>),
                 Call (HandleCriticalError ''uncaughtException'' (Some enospc)),
                 Call (GracefulShutdown ''SIGINT''), Call CheckMemoryUsage]"

definition mute_host :: proc where
  "mute_host = (constructor fresh_host)\<lparr>logDirCreatable := False, logWritable := False\<rparr>"

text \<open>
  A process whose state file is a truncated text; one that saves a count of 2, and the
  relaunched processes that find its file an hour and a day later; one that saves over
  the file of an earlier restart.
\<close>

definition torn_host :: proc where
  "torn_host = (constructor fresh_host)\<lparr>restartCount := 3, lastRestart := 1762077000000,
                                         disk_state := Unparseable\<rparr>"

definition counted_host :: proc where
  "counted_host = (constructor fresh_host)\<lparr>restartCount := 2, lastRestart := 1762077000000\<rparr>"

definition same_day_host :: proc where
  "same_day_host = (relaunch (stateOf (saveRestartState counted_host)))\<lparr>clock := 1762081200000\<rparr>"

definition next_day_host :: proc where
  "next_day_host = (relaunch (stateOf (saveRestartState counted_host)))\<lparr>clock := 1762164000000\<rparr>"

definition resaving_host :: proc where
  "resaving_host = (constructor fresh_host)\<lparr>restartCount := 3, lastRestart := 1762077000000,
                                             disk_state := fifth_file\<rparr>"

text \<open>
  A process on the fresh host ten seconds before midnight UTC, and the process relaunched
  fifteen seconds after its restart, on the next calendar day.
\<close>

definition late_host :: proc where
  "late_host = (constructor fresh_host)\<lparr>clock := 1762127990000\<rparr>"

definition midnight_host :: proc where
  "midnight_host = (relaunch (stateOf (initiateRestart ''ENOSPC'' late_host)))
                     \<lparr>clock := 1762128005000\<rparr>"

section \<open>What each call leaves behind\<close>

lemmas prims = fs_mkdir_logs_def fs_appendFile_log_def fs_writeFile_state_def fs_writeFile_pid_def
  fs_unlink_pid_def emit_def setTimeoutExit_def processExit_def

lemma logEvent_eq:
  "logEvent ty d s =
     Returned (s\<lparr>disk_log := (if logDirCreatable s \<and> logWritable s
                              then disk_log s @ [mkEntry ty d s] else disk_log s),
                 trace := trace s @ logFailure s\<rparr>)"
  by (cases "logDirCreatable s"; cases "logWritable s")
     (simp_all add: logEvent_def prims logFailure_def)

lemma saveRestartState_eq:
  "saveRestartState s =
     Returned (s\<lparr>disk_state := (case stateWrite s of Completes \<Rightarrow> ParsedObject (currentDoc s)
                                  | Refused \<Rightarrow> disk_state s | Torn \<Rightarrow> Unparseable),
                 disk_pid := (if stateWrite s = Completes \<and> pidWritable s then Some (pid s)
                              else disk_pid s),
                 trace := trace s @ saveFailure s\<rparr>)"
  by (cases "stateWrite s"; cases "pidWritable s")
     (simp_all add: saveRestartState_def prims saveFailure_def)

lemma performEmergencyCleanup_eq:
  "performEmergencyCleanup s = Returned (s\<lparr>trace := trace s @ cleanupEffects s\<rparr>)"
  by (cases "hasGc s"; cases "hasMessagesCache s")
     (simp_all add: performEmergencyCleanup_def prims tempDirs_def cleanupEffects_def)

lemma restartProcess_eq:
  "restartProcess s =
     Returned (s\<lparr>disk_log := (if logDirCreatable s \<and> logWritable s
                              then disk_log s @ [mkEntry ''restart_initiated_render'' renderText s]
                              else disk_log s),
                 trace := trace s @ [ConsoleLog (arrows @ '' [RENDER RESTART] Solicitando rein''
                                       @ i_acute @ ''cio limpo via process.exit(0)...'')]
                          @ logFailure s,
                 timers := timers s @ [(clock s + 2000, 0)]\<rparr>)"
  by (simp add: restartProcess_def logEvent_eq prims mkEntry_def logFailure_def renderText_def
        split del: if_split cong: if_cong)

lemma unlink_eq:
  "tryCatch (fs_unlink_pid s) (\<lambda>e. Returned) =
     Returned (s\<lparr>disk_pid := (if pidWritable s then None else disk_pid s)\<rparr>)"
  by (cases "disk_pid s = None"; cases "pidWritable s") (simp_all add: prims)

lemma killChild_eq:
  "killChild s = Returned (s\<lparr>childProcess := map_option (\<lambda>c. c\<lparr>killed := True\<rparr>) (childProcess s),
                             trace := trace s @ killEffects s\<rparr>)"
proof (cases "childProcess s")
  case None
  then show ?thesis by (simp add: killChild_def killEffects_def)
next
  case (Some c)
  then show ?thesis by (cases "killed c") (simp_all add: killChild_def killEffects_def)
qed

lemma gc_eq:
  "(if hasGc s then emit Gc s else Returned s) =
     Returned (s\<lparr>trace := trace s @ (if hasGc s then [Gc] else [])\<rparr>)"
  by (simp add: prims)

lemma gracefulShutdown_eq:
  assumes "\<not> isShuttingDown s"
  shows "gracefulShutdown signal s =
     Returned (s\<lparr>isShuttingDown := True,
                 childProcess := map_option (\<lambda>c. c\<lparr>killed := True\<rparr>) (childProcess s),
                 disk_log := (if logDirCreatable s \<and> logWritable s
                              then disk_log s @ [mkEntry ''graceful_shutdown'' (JS signal) s]
                              else disk_log s),
                 disk_pid := (if pidWritable s then None else disk_pid s),
                 timers := timers s @ [(clock s + 2000, if signal = ''MAX_RESTARTS_REACHED'' then 1 else 0)],
                 trace := trace s @ logFailure s @ killEffects s @ (if hasGc s then [Gc] else [])\<rparr>)"
  using assms
  by (simp add: gracefulShutdown_def logEvent_eq unlink_eq killChild_eq gc_eq setTimeoutExit_def
        mkEntry_def logFailure_def killEffects_def split del: if_split cong: if_cong)

lemma forceRestart_eq:
  "forceRestart reason s =
     Returned (s\<lparr>disk_log := (if logDirCreatable s \<and> logWritable s
                              then disk_log s @ [mkEntry ''force_restart'' (JS reason) s]
                              else disk_log s),
                 disk_state := (case stateWrite s of Completes \<Rightarrow> ParsedObject (currentDoc s)
                                  | Refused \<Rightarrow> disk_state s | Torn \<Rightarrow> Unparseable),
                 disk_pid := (if stateWrite s = Completes \<and> pidWritable s then Some (pid s)
                              else disk_pid s),
                 timers := timers s @ [(clock s + 1000, 1)],
                 trace := trace s @ logFailure s @ saveFailure s\<rparr>)"
  by (simp add: forceRestart_def logEvent_eq saveRestartState_eq setTimeoutExit_def
        mkEntry_def logFailure_def saveFailure_def currentDoc_def split del: if_split
        cong: if_cong write_mode.case_cong)

lemma initiateRestart_go_eq:
  assumes "\<not> isShuttingDown s" "restartCooldown s \<le> clock s - lastRestart s"
    "restartCount s < maxRestarts s"
  shows "initiateRestart reason s =
     Returned (s\<lparr>restartCount := restartCount s + 1, lastRestart := clock s, isShuttingDown := True,
       disk_log := (if logDirCreatable s \<and> logWritable s
                    then disk_log s @
                      [mkEntry ''restart_initiated''
                         (initiatedData reason (restartCount s + 1) (maxRestarts s)) s,
                       mkEntry ''restart_initiated_render'' renderText s]
                    else disk_log s),
       disk_state := (case stateWrite s of Completes \<Rightarrow> ParsedObject (currentDoc (restarted s))
                        | Refused \<Rightarrow> disk_state s | Torn \<Rightarrow> Unparseable),
       disk_pid := (if stateWrite s = Completes \<and> pidWritable s then Some (pid s) else disk_pid s),
       timers := timers s @ [(clock s + 2000, 0)],
       trace := trace s @ logFailure s @ cleanupEffects s @ saveFailure s
                @ [ConsoleLog (arrows @ '' [RENDER RESTART] Solicitando rein'' @ i_acute
                                @ ''cio limpo via process.exit(0)...'')] @ logFailure s\<rparr>)"
  using assms
  by (simp add: initiateRestart_def Let_def logEvent_eq performEmergencyCleanup_eq saveRestartState_eq
        restartProcess_eq restarted_def mkEntry_def logFailure_def saveFailure_def currentDoc_def
        cleanupEffects_def initiatedData_def split del: if_split cong: if_cong write_mode.case_cong)

lemma andThen_done: "andThen x (seq []) = x"
  by (cases x) simp_all

lemma initiateRestart_limit:
  assumes "\<not> isShuttingDown s" "restartCooldown s \<le> clock s - lastRestart s"
    "maxRestarts s \<le> restartCount s"
  shows "initiateRestart reason s =
           gracefulShutdown ''MAX_RESTARTS_REACHED''
             (stateOf (logEvent ''restart_limit'' (limitText (maxRestarts s)) s))"
  using assms by (simp add: initiateRestart_def Let_def logEvent_eq limitText_def andThen_done)

lemma initiateRestart_blocked:
  assumes "\<not> isShuttingDown s" "clock s - lastRestart s < restartCooldown s"
  shows "initiateRestart reason s = logEvent ''restart_blocked'' (blockedText reason) s"
  using assms by (simp add: initiateRestart_def blockedText_def)

lemma noFields_other_day: "\<not> sameDay s noFields"
  by (simp add: sameDay_def noFields_def toDateString_def)

lemma loadFrom_today:
  assumes "sameDay s d"
  shows "loadFrom d s =
           logEvent ''state_loaded'' (loadedData d)
             (s\<lparr>restartCount := orZero (sd_restartCount d), lastRestart := orZero (sd_lastRestart d)\<rparr>)"
  using assms by (simp add: loadFrom_def sameDay_def Let_def loadedData_def logEvent_eq toDateString_def)

lemma loadFrom_other_day:
  assumes "\<not> sameDay s d"
  shows "loadFrom d s = Returned (s\<lparr>restartCount := 0, lastRestart := 0\<rparr>)"
  using assms by (simp add: loadFrom_def sameDay_def Let_def)

lemma load_today:
  assumes "stateReadable s" "disk_state s = ParsedObject d" "sameDay s d"
  shows "loadRestartState s =
           logEvent ''state_loaded'' (loadedData d)
             (s\<lparr>restartCount := orZero (sd_restartCount d), lastRestart := orZero (sd_lastRestart d)\<rparr>)"
  using assms by (simp add: loadRestartState_def loadRestartState_try_def loadFrom_today logEvent_eq)

lemma load_zero:
  assumes "\<not> stateReadable s \<or> (\<forall>d. disk_state s = ParsedObject d \<longrightarrow> \<not> sameDay s d)"
  shows "loadRestartState s = Returned (s\<lparr>restartCount := 0, lastRestart := 0\<rparr>)"
proof (cases "stateReadable s")
  case False
  then show ?thesis by (simp add: loadRestartState_def loadRestartState_try_def)
next
  case True
  with assms have other: "\<forall>d. disk_state s = ParsedObject d \<longrightarrow> \<not> sameDay s d" by simp
  show ?thesis
  proof (cases "disk_state s")
    case (ParsedObject d)
    with other have "\<not> sameDay s d" by simp
    with True ParsedObject show ?thesis
      by (simp add: loadRestartState_def loadRestartState_try_def loadFrom_other_day)
  qed (use True in \<open>simp_all add: loadRestartState_def loadRestartState_try_def
         loadFrom_other_day noFields_other_day\<close>)
qed

lemma handleCriticalError_try_eq:
  "handleCriticalError_try ty error s =
     (case classify (criticalErrors s) (errorMessageOf error) (errorCodeOf error) of
        Inl e \<Rightarrow> Threw e (stateOf (logEvent ''critical_error'' (criticalData ty error s) s))
      | Inr True \<Rightarrow>
          initiateRestart (criticalReason error)
            (stateOf (logEvent ''critical_error'' (criticalData ty error s) s))
      | Inr False \<Rightarrow>
          emit (notCriticalText ty error)
            (stateOf (logEvent ''critical_error'' (criticalData ty error s) s)))"
  by (simp add: handleCriticalError_try_def Let_def logEvent_eq andThen_done criticalData_def
        criticalReason_def notCriticalText_def split: sum.splits bool.splits)

lemma gracefulShutdown_returns: "\<exists>s'. gracefulShutdown signal s = Returned s'"
  by (cases "isShuttingDown s") (simp_all add: gracefulShutdown_eq, simp add: gracefulShutdown_def)

lemma initiateRestart_returns: "\<exists>s'. initiateRestart reason s = Returned s'"
proof -
  consider (off) "isShuttingDown s"
    | (blocked) "\<not> isShuttingDown s" "clock s - lastRestart s < restartCooldown s"
    | (limit) "\<not> isShuttingDown s" "restartCooldown s \<le> clock s - lastRestart s"
        "maxRestarts s \<le> restartCount s"
    | (go) "\<not> isShuttingDown s" "restartCooldown s \<le> clock s - lastRestart s"
        "restartCount s < maxRestarts s"
    by linarith
  then show ?thesis
  proof cases
    case off
    then show ?thesis by (simp add: initiateRestart_def)
  next
    case blocked
    then show ?thesis by (simp add: initiateRestart_blocked logEvent_eq)
  next
    case limit
    then show ?thesis by (simp add: initiateRestart_limit gracefulShutdown_returns)
  next
    case go
    then show ?thesis by (simp add: initiateRestart_go_eq)
  qed
qed

lemma handleCriticalError_eq:
  "handleCriticalError ty error s =
     (case classify (criticalErrors s) (errorMessageOf error) (errorCodeOf error) of
        Inl e \<Rightarrow>
          forceRestart ''Falha no sistema de logs''
            (stateOf (emit (handlerText e)
               (stateOf (logEvent ''critical_error'' (criticalData ty error s) s))))
      | Inr True \<Rightarrow>
          initiateRestart (criticalReason error)
            (stateOf (logEvent ''critical_error'' (criticalData ty error s) s))
      | Inr False \<Rightarrow>
          emit (notCriticalText ty error)
            (stateOf (logEvent ''critical_error'' (criticalData ty error s) s)))"
proof (cases "classify (criticalErrors s) (errorMessageOf error) (errorCodeOf error)")
  case (Inl e)
  then show ?thesis
    by (simp add: handleCriticalError_def handleCriticalError_try_eq handlerText_def emit_def)
next
  case (Inr b)
  show ?thesis
  proof (cases b)
    case True
    obtain s' where "initiateRestart (criticalReason error)
            (stateOf (logEvent ''critical_error'' (criticalData ty error s) s)) = Returned s'"
      using initiateRestart_returns by blast
    with Inr True show ?thesis
      by (simp add: handleCriticalError_def handleCriticalError_try_eq)
  next
    case False
    with Inr show ?thesis
      by (simp add: handleCriticalError_def handleCriticalError_try_eq emit_def)
  qed
qed

section \<open>What every call respects\<close>

lemma checkMemoryUsage_eq:
  "checkMemoryUsage s =
     (if usedMB s > 1024
      then initiateRestart (memoryReason (usedMB s))
             (stateOf (logEvent ''high_memory'' (highMemoryData s) s))
      else if usedMB s > 512 then logEvent ''high_memory'' (highMemoryData s) s
      else Returned s)"
proof -
  obtain s' where "initiateRestart (memoryReason (usedMB s))
             (stateOf (logEvent ''high_memory'' (highMemoryData s) s)) = Returned s'"
    using initiateRestart_returns by blast
  then show ?thesis
    by (simp add: checkMemoryUsage_def Let_def logEvent_eq usedMB_def highMemoryData_def
          memoryReason_def andThen_done)
qed

lemmas frame = moves_def policy_def bounded_def diskBounded_def marks_def

lemma moves_refl: "moves s s"
  by (simp add: moves_def)

lemma moves_trans: "moves a b \<Longrightarrow> moves b c \<Longrightarrow> moves a c"
  by (simp add: moves_def split: if_splits)

lemma moves_logEvent: "\<not> marked ty \<Longrightarrow> moves s (stateOf (logEvent ty d s))"
  by (simp add: logEvent_eq frame mkEntry_def)

lemma moves_emit: "moves s (stateOf (emit x s))"
  by (simp add: emit_def frame)

lemma moves_save: "moves s (stateOf (saveRestartState s))"
  by (simp add: saveRestartState_eq frame currentDoc_def orZero_def split: write_mode.splits)

lemma moves_cleanup: "moves s (stateOf (performEmergencyCleanup s))"
  by (simp add: performEmergencyCleanup_eq frame)

lemma moves_restartProcess: "moves s (stateOf (restartProcess s))"
  by (simp add: restartProcess_eq frame mkEntry_def marked_def)

lemma moves_forceRestart: "moves s (stateOf (forceRestart reason s))"
  by (simp add: forceRestart_eq frame currentDoc_def orZero_def mkEntry_def marked_def
        split: write_mode.splits)

lemma moves_gracefulShutdown: "moves s (stateOf (gracefulShutdown signal s))"
proof (cases "isShuttingDown s")
  case True
  then have "gracefulShutdown signal s = Returned s" by (simp add: gracefulShutdown_def)
  then show ?thesis by (simp add: moves_refl)
next
  case False
  then show ?thesis by (simp add: gracefulShutdown_eq frame)
qed

lemma moves_initiateRestart: "moves s (stateOf (initiateRestart reason s))"
proof -
  consider (off) "isShuttingDown s"
    | (blocked) "\<not> isShuttingDown s" "clock s - lastRestart s < restartCooldown s"
    | (limit) "\<not> isShuttingDown s" "restartCooldown s \<le> clock s - lastRestart s"
        "maxRestarts s \<le> restartCount s"
    | (go) "\<not> isShuttingDown s" "restartCooldown s \<le> clock s - lastRestart s"
        "restartCount s < maxRestarts s"
    by linarith
  then show ?thesis
  proof cases
    case off
    then show ?thesis by (simp add: initiateRestart_def moves_refl)
  next
    case blocked
    then show ?thesis by (simp add: initiateRestart_blocked moves_logEvent marked_def)
  next
    case limit
    have "moves s (stateOf (logEvent ''restart_limit'' (limitText (maxRestarts s)) s))"
      by (rule moves_logEvent) (simp add: marked_def)
    moreover have "moves (stateOf (logEvent ''restart_limit'' (limitText (maxRestarts s)) s))
        (stateOf (initiateRestart reason s))"
      unfolding initiateRestart_limit [OF limit] by (rule moves_gracefulShutdown)
    ultimately show ?thesis by (rule moves_trans)
  next
    case go
    then show ?thesis
      by (simp add: initiateRestart_go_eq frame currentDoc_def restarted_def orZero_def
            split: write_mode.splits)
  qed
qed

lemma moves_load: "moves s (stateOf (loadRestartState s))"
proof (cases "stateReadable s \<and> (\<exists>d. disk_state s = ParsedObject d \<and> sameDay s d)")
  case True
  then obtain d where d: "stateReadable s" "disk_state s = ParsedObject d" "sameDay s d" by blast
  then show ?thesis by (simp add: load_today logEvent_eq frame mkEntry_def marked_def)
next
  case False
  then have "loadRestartState s = Returned (s\<lparr>restartCount := 0, lastRestart := 0\<rparr>)"
    by (intro load_zero) blast
  then show ?thesis by (simp add: frame)
qed

lemma moves_handleCriticalError: "moves s (stateOf (handleCriticalError ty error s))"
proof -
  let ?s1 = "stateOf (logEvent ''critical_error'' (criticalData ty error s) s)"
  have s1: "moves s ?s1" by (rule moves_logEvent) (simp add: marked_def)
  show ?thesis
  proof (cases "classify (criticalErrors s) (errorMessageOf error) (errorCodeOf error)")
    case (Inl e)
    let ?s2 = "stateOf (emit (handlerText e) ?s1)"
    have "moves ?s1 ?s2" by (rule moves_emit)
    moreover have "moves ?s2 (stateOf (forceRestart ''Falha no sistema de logs'' ?s2))"
      by (rule moves_forceRestart)
    ultimately have "moves s (stateOf (forceRestart ''Falha no sistema de logs'' ?s2))"
      using s1 by (blast intro: moves_trans)
    with Inl show ?thesis by (simp add: handleCriticalError_eq)
  next
    case (Inr b)
    show ?thesis
    proof (cases b)
      case True
      have "moves ?s1 (stateOf (initiateRestart (criticalReason error) ?s1))"
        by (rule moves_initiateRestart)
      with s1 have "moves s (stateOf (initiateRestart (criticalReason error) ?s1))"
        by (blast intro: moves_trans)
      with Inr True show ?thesis by (simp add: handleCriticalError_eq)
    next
      case False
      have "moves ?s1 (stateOf (emit (notCriticalText ty error) ?s1))" by (rule moves_emit)
      with s1 have "moves s (stateOf (emit (notCriticalText ty error) ?s1))"
        by (blast intro: moves_trans)
      with Inr False show ?thesis by (simp add: handleCriticalError_eq)
    qed
  qed
qed

lemma moves_checkMemoryUsage: "moves s (stateOf (checkMemoryUsage s))"
proof -
  let ?s1 = "stateOf (logEvent ''high_memory'' (highMemoryData s) s)"
  have s1: "moves s ?s1" by (rule moves_logEvent) (simp add: marked_def)
  have "moves ?s1 (stateOf (initiateRestart (memoryReason (usedMB s)) ?s1))"
    by (rule moves_initiateRestart)
  with s1 have "moves s (stateOf (initiateRestart (memoryReason (usedMB s)) ?s1))"
    by (rule moves_trans)
  with s1 show ?thesis by (simp add: checkMemoryUsage_eq moves_refl)
qed

lemma moves_stop: "moves s (stateOf (stop s))"
  by (simp add: stop_def logEvent_eq frame mkEntry_def marked_def)

lemma moves_manualRestart: "moves s (stateOf (manualRestart arg s))"
proof -
  obtain reason where r: "reason = (case arg of
                      None \<Rightarrow> ''Reinicializa'' @ c_cedilla @ a_tilde @ ''o manual''
                    | Some r \<Rightarrow> r)" by simp
  let ?s1 = "stateOf (logEvent ''manual_restart'' (JS reason) s)"
  have s1: "moves s ?s1" by (rule moves_logEvent) (simp add: marked_def)
  have "moves ?s1 (stateOf (initiateRestart reason ?s1))" by (rule moves_initiateRestart)
  with s1 have "moves s (stateOf (initiateRestart reason ?s1))" by (rule moves_trans)
  then show ?thesis
    unfolding manualRestart_def Let_def r [symmetric]
    by (simp add: logEvent_eq andThen_done)
qed

lemma moves_onWarning: "moves s (stateOf (onWarning name message s))"
  by (simp add: onWarning_def moves_logEvent marked_def moves_refl)

lemma load_returns: "\<exists>s'. loadRestartState s = Returned s'"
proof (cases "stateReadable s \<and> (\<exists>d. disk_state s = ParsedObject d \<and> sameDay s d)")
  case True
  then obtain d where d: "stateReadable s" "disk_state s = ParsedObject d" "sameDay s d" by blast
  then show ?thesis by (simp add: load_today logEvent_eq)
next
  case False
  then have "loadRestartState s = Returned (s\<lparr>restartCount := 0, lastRestart := 0\<rparr>)"
    by (intro load_zero) blast
  then show ?thesis by simp
qed

lemma start_eq:
  "start s =
     (if envRestarted s = ''true'' then logEvent ''restart_success'' (successData s) (started s)
      else Returned (started s))"
proof -
  obtain s1 where s1: "loadRestartState s = Returned s1" using load_returns by blast
  have env: "envRestarted s1 = envRestarted s \<and> envRestartCount s1 = envRestartCount s"
  proof (cases "stateReadable s \<and> (\<exists>d. disk_state s = ParsedObject d \<and> sameDay s d)")
    case True
    then obtain d where d: "stateReadable s" "disk_state s = ParsedObject d" "sameDay s d" by blast
    with s1 show ?thesis by (auto simp add: load_today logEvent_eq)
  next
    case False
    then have "loadRestartState s = Returned (s\<lparr>restartCount := 0, lastRestart := 0\<rparr>)"
      by (intro load_zero) blast
    with s1 show ?thesis by auto
  qed
  show ?thesis
  proof (cases "envRestarted s = ''true''")
    case True
    with env show ?thesis
      by (simp add: start_def s1 logEvent_eq started_def startedData_def successData_def)
  next
    case False
    with env show ?thesis
      by (simp add: start_def s1 logEvent_eq started_def startedData_def successData_def)
  qed
qed

lemma moves_start: "moves s (stateOf (start s))"
proof -
  let ?s1 = "stateOf (loadRestartState s)"
  have a: "moves s ?s1" by (rule moves_load)
  have "moves ?s1 (started s)"
    unfolding started_def by (rule moves_logEvent) (simp add: marked_def)
  with a have b: "moves s (started s)" by (rule moves_trans)
  have "moves (started s) (stateOf (logEvent ''restart_success'' (successData s) (started s)))"
    by (rule moves_logEvent) (simp add: marked_def)
  with b have "moves s (stateOf (logEvent ''restart_success'' (successData s) (started s)))"
    by (rule moves_trans)
  with b show ?thesis by (simp add: start_eq)
qed

lemma run_moves:
  assumes "\<And>ty d. c = LogEvent ty d \<Longrightarrow> \<not> marked ty"
  shows "moves s (stateOf (run c s))"
  using assms
  by (cases c)
     (simp_all add: moves_start moves_stop moves_manualRestart moves_handleCriticalError
        moves_checkMemoryUsage moves_initiateRestart moves_forceRestart moves_gracefulShutdown
        moves_save moves_load moves_cleanup moves_restartProcess moves_logEvent moves_onWarning)

lemma run_keeps:
  "policy (stateOf (run c s)) = policy s \<and> (if bounded s then bounded (stateOf (run c s)) else True)"
proof (cases "\<exists>ty d. c = LogEvent ty d")
  case True
  then show ?thesis by (auto simp add: logEvent_eq policy_def bounded_def)
next
  case False
  then have "moves s (stateOf (run c s))" by (intro run_moves) blast
  then show ?thesis by (simp add: moves_def)
qed

section \<open>The cooldown\<close>

text \<open>
  C2, as the code has it. The cooldown is counted from \<open>lastRestart\<close> as the process holds
  it, not from the last request: \<open>lastRestart\<close> is the instant of the last request that
  initiated a restart. Line 216 sets it, \<open>saveRestartState\<close> writes it and
  \<open>loadRestartState\<close> brings it back in the next process, on the same calendar day only. A restart request that arrives less than \<open>restartCooldown\<close> after it, in
  a process that is not shutting down, does what \<open>logEvent('restart_blocked', ...)\<close> does
  and nothing else: it returns, the counter, \<open>lastRestart\<close>, the shutdown flag, the state
  file and the timers are as before, and a writable log has one more line, of type
  \<open>restart_blocked\<close>. The restart limit plays no part.

  The two requests together. In one process the first request sets the latch, so the
  second request that the cooldown blocks is made in the next process. Let a first
  request pass the guards in a process \<open>p\<close> and complete its save, and let \<open>q\<close> be a process
  that is not shutting down, finds that state file and can read it, on the same local day
  and less than the cooldown after the first request. Then the first request has
  incremented the counter and set \<open>lastRestart\<close> to its own instant, \<open>loadRestartState\<close> in
  \<open>q\<close> brings both back, and a second request made on the loaded state is blocked and
  leaves both as they are.
\<close>

theorem cooldown_blocks_second_request:
  "(\<not> isShuttingDown s \<and> clock s - lastRestart s < restartCooldown s \<longrightarrow>
      initiateRestart reason s = logEvent ''restart_blocked'' (blockedText reason) s
      \<and> (\<exists>s'. initiateRestart reason s = Returned s'
            \<and> restartCount s' = restartCount s \<and> lastRestart s' = lastRestart s
            \<and> isShuttingDown s' = isShuttingDown s \<and> disk_state s' = disk_state s
            \<and> timers s' = timers s
            \<and> (logDirCreatable s \<and> logWritable s \<longrightarrow>
                 disk_log s' = disk_log s @ [mkEntry ''restart_blocked'' (blockedText reason) s])))
   \<and> (\<not> isShuttingDown p \<and> restartCooldown p \<le> clock p - lastRestart p
        \<and> restartCount p < maxRestarts p \<and> stateWrite p = Completes
        \<and> disk_state q = disk_state (stateOf (initiateRestart r1 p))
        \<and> stateReadable q \<and> \<not> isShuttingDown q
        \<and> toDateString q (Some (clock q)) = toDateString q (Some (clock p))
        \<and> clock q - clock p < restartCooldown q \<longrightarrow>
      (\<exists>p' loaded blocked.
          initiateRestart r1 p = Returned p'
          \<and> restartCount p' = restartCount p + 1 \<and> lastRestart p' = clock p
          \<and> loadRestartState q = Returned loaded
          \<and> restartCount loaded = restartCount p + 1 \<and> lastRestart loaded = clock p
          \<and> initiateRestart r2 loaded = Returned blocked
          \<and> initiateRestart r2 loaded = logEvent ''restart_blocked'' (blockedText r2) loaded
          \<and> restartCount blocked = restartCount p + 1 \<and> lastRestart blocked = clock p
          \<and> \<not> isShuttingDown blocked \<and> timers blocked = timers q))"
proof (intro conjI impI)
  assume a: "\<not> isShuttingDown s \<and> clock s - lastRestart s < restartCooldown s"
  then show eq: "initiateRestart reason s = logEvent ''restart_blocked'' (blockedText reason) s"
    by (intro initiateRestart_blocked) simp_all
  show "\<exists>s'. initiateRestart reason s = Returned s'
            \<and> restartCount s' = restartCount s \<and> lastRestart s' = lastRestart s
            \<and> isShuttingDown s' = isShuttingDown s \<and> disk_state s' = disk_state s
            \<and> timers s' = timers s
            \<and> (logDirCreatable s \<and> logWritable s \<longrightarrow>
                 disk_log s' = disk_log s @ [mkEntry ''restart_blocked'' (blockedText reason) s])"
    unfolding eq by (simp add: logEvent_eq)
next
  assume a: "\<not> isShuttingDown p \<and> restartCooldown p \<le> clock p - lastRestart p
        \<and> restartCount p < maxRestarts p \<and> stateWrite p = Completes
        \<and> disk_state q = disk_state (stateOf (initiateRestart r1 p))
        \<and> stateReadable q \<and> \<not> isShuttingDown q
        \<and> toDateString q (Some (clock q)) = toDateString q (Some (clock p))
        \<and> clock q - clock p < restartCooldown q"
  then have g: "\<not> isShuttingDown p" "restartCooldown p \<le> clock p - lastRestart p"
      "restartCount p < maxRestarts p" by simp_all
  let ?d = "currentDoc (restarted p)"
  have d: "disk_state q = ParsedObject ?d"
    using a by (simp add: initiateRestart_go_eq [OF g])
  have r: "stateReadable q" using a by simp
  have sd: "sameDay q ?d"
    using a by (simp add: sameDay_def currentDoc_def restarted_def)
  let ?loaded = "stateOf (loadRestartState q)"
  have l: "loadRestartState q = Returned ?loaded"
    by (simp add: load_today [OF r d sd] logEvent_eq)
  have lf: "restartCount ?loaded = restartCount p + 1" "lastRestart ?loaded = clock p"
      "\<not> isShuttingDown ?loaded" "clock ?loaded = clock q"
      "restartCooldown ?loaded = restartCooldown q" "timers ?loaded = timers q"
    using a by (simp_all add: load_today [OF r d sd] logEvent_eq currentDoc_def restarted_def orZero_def)
  have b: "\<not> isShuttingDown ?loaded" "clock ?loaded - lastRestart ?loaded < restartCooldown ?loaded"
    using a lf by simp_all
  have e: "initiateRestart r2 ?loaded = logEvent ''restart_blocked'' (blockedText r2) ?loaded"
    by (rule initiateRestart_blocked [OF b])
  show "\<exists>p' loaded blocked.
          initiateRestart r1 p = Returned p'
          \<and> restartCount p' = restartCount p + 1 \<and> lastRestart p' = clock p
          \<and> loadRestartState q = Returned loaded
          \<and> restartCount loaded = restartCount p + 1 \<and> lastRestart loaded = clock p
          \<and> initiateRestart r2 loaded = Returned blocked
          \<and> initiateRestart r2 loaded = logEvent ''restart_blocked'' (blockedText r2) loaded
          \<and> restartCount blocked = restartCount p + 1 \<and> lastRestart blocked = clock p
          \<and> \<not> isShuttingDown blocked \<and> timers blocked = timers q"
    apply (rule exI [of _ "stateOf (initiateRestart r1 p)"])
    apply (rule exI [of _ ?loaded])
    apply (rule exI [of _ "stateOf (logEvent ''restart_blocked'' (blockedText r2) ?loaded)"])
    using l lf e by (simp add: initiateRestart_go_eq [OF g] logEvent_eq)
qed

theorem cooldown_blocks_second_request_witness:
  "\<not> isShuttingDown recent_host
   \<and> clock recent_host - lastRestart recent_host < restartCooldown recent_host
   \<and> (\<exists>s'. initiateRestart ''ENOMEM'' recent_host = Returned s'
          \<and> restartCount s' = 0 \<and> lastRestart s' = 1762077590000 \<and> timers s' = []
          \<and> map le_type (disk_log s') = [''restart_blocked''])
   \<and> restartCount (constructor fresh_host) = 0 \<and> clock soon_host - clock (constructor fresh_host) = 10000
   \<and> (\<exists>first' loaded blocked.
          initiateRestart ''ENOSPC'' (constructor fresh_host) = Returned first'
          \<and> restartCount first' = 1 \<and> lastRestart first' = 1762077600000
          \<and> loadRestartState soon_host = Returned loaded
          \<and> restartCount loaded = 1 \<and> lastRestart loaded = 1762077600000
          \<and> initiateRestart ''ENOSPC again'' loaded = Returned blocked
          \<and> restartCount blocked = 1 \<and> lastRestart blocked = 1762077600000
          \<and> \<not> isShuttingDown blocked \<and> timers blocked = [])"
proof -
  let ?first = "constructor fresh_host"
  have h: "\<not> isShuttingDown recent_host
           \<and> clock recent_host - lastRestart recent_host < restartCooldown recent_host"
    by (simp add: recent_host_def constructor_def fresh_host_def)
  have h3: "logDirCreatable recent_host \<and> logWritable recent_host \<and> disk_log recent_host = []
            \<and> restartCount recent_host = 0 \<and> lastRestart recent_host = 1762077590000
            \<and> timers recent_host = []"
    by (simp add: recent_host_def constructor_def fresh_host_def)
  note t = cooldown_blocks_second_request
    [where s = recent_host and reason = "''ENOMEM''" and p = ?first and q = soon_host
       and ?r1.0 = "''ENOSPC''" and ?r2.0 = "''ENOSPC again''"]
  from t [THEN conjunct1, rule_format, OF h, THEN conjunct2] h3
  have 1: "\<exists>s'. initiateRestart ''ENOMEM'' recent_host = Returned s'
          \<and> restartCount s' = 0 \<and> lastRestart s' = 1762077590000 \<and> timers s' = []
          \<and> map le_type (disk_log s') = [''restart_blocked'']"
    by (auto simp add: mkEntry_def)
  have g: "\<not> isShuttingDown ?first" "restartCooldown ?first \<le> clock ?first - lastRestart ?first"
      "restartCount ?first < maxRestarts ?first"
    by (simp_all add: constructor_def fresh_host_def)
  have f: "restartCount ?first = 0 \<and> clock ?first = 1762077600000 \<and> stateWrite ?first = Completes"
    by (simp add: constructor_def fresh_host_def)
  have n: "disk_state soon_host = disk_state (stateOf (initiateRestart ''ENOSPC'' ?first))
           \<and> stateReadable soon_host \<and> \<not> isShuttingDown soon_host
           \<and> clock soon_host = 1762077610000 \<and> restartCooldown soon_host = 30000
           \<and> localOffset soon_host = 0 \<and> timers soon_host = []"
    unfolding soon_host_def relaunch_def initiateRestart_go_eq [OF g]
    by (simp add: constructor_def fresh_host_def)
  have a: "\<not> isShuttingDown ?first \<and> restartCooldown ?first \<le> clock ?first - lastRestart ?first
        \<and> restartCount ?first < maxRestarts ?first \<and> stateWrite ?first = Completes
        \<and> disk_state soon_host = disk_state (stateOf (initiateRestart ''ENOSPC'' ?first))
        \<and> stateReadable soon_host \<and> \<not> isShuttingDown soon_host
        \<and> toDateString soon_host (Some (clock soon_host)) = toDateString soon_host (Some (clock ?first))
        \<and> clock soon_host - clock ?first < restartCooldown soon_host"
    using g f n by (simp add: toDateString_def)
  from t [THEN conjunct2, rule_format, OF a] f n
  have 2: "\<exists>first' loaded blocked.
          initiateRestart ''ENOSPC'' ?first = Returned first'
          \<and> restartCount first' = 1 \<and> lastRestart first' = 1762077600000
          \<and> loadRestartState soon_host = Returned loaded
          \<and> restartCount loaded = 1 \<and> lastRestart loaded = 1762077600000
          \<and> initiateRestart ''ENOSPC again'' loaded = Returned blocked
          \<and> initiateRestart ''ENOSPC again'' loaded
              = logEvent ''restart_blocked'' (blockedText ''ENOSPC again'') loaded
          \<and> restartCount blocked = 1 \<and> lastRestart blocked = 1762077600000
          \<and> \<not> isShuttingDown blocked \<and> timers blocked = []"
    by simp
  from 2 have 3: "\<exists>first' loaded blocked.
          initiateRestart ''ENOSPC'' ?first = Returned first'
          \<and> restartCount first' = 1 \<and> lastRestart first' = 1762077600000
          \<and> loadRestartState soon_host = Returned loaded
          \<and> restartCount loaded = 1 \<and> lastRestart loaded = 1762077600000
          \<and> initiateRestart ''ENOSPC again'' loaded = Returned blocked
          \<and> restartCount blocked = 1 \<and> lastRestart blocked = 1762077600000
          \<and> \<not> isShuttingDown blocked \<and> timers blocked = []"
    by blast
  from h 1 f n 3 show ?thesis by simp
qed

lemma late_restart_eq:
  "initiateRestart ''ENOSPC'' late_host =
     Returned (late_host\<lparr>restartCount := 1, lastRestart := 1762127990000, isShuttingDown := True,
       disk_log := [mkEntry ''restart_initiated'' (initiatedData ''ENOSPC'' 1 5) late_host,
                    mkEntry ''restart_initiated_render'' renderText late_host],
       disk_state := ParsedObject (currentDoc (restarted late_host)),
       disk_pid := Some 4242,
       timers := [(1762127992000, 0)],
       trace := trace late_host @ cleanupEffects late_host @ [renderNotice]\<rparr>)"
proof -
  have g: "\<not> isShuttingDown late_host"
      "restartCooldown late_host \<le> clock late_host - lastRestart late_host"
      "restartCount late_host < maxRestarts late_host"
    by (simp_all add: late_host_def constructor_def fresh_host_def)
  show ?thesis
    unfolding initiateRestart_go_eq [OF g]
    by (simp add: late_host_def constructor_def fresh_host_def logFailure_def saveFailure_def
          renderNotice_def)
qed

lemma midnight_start_eq:
  "start midnight_host =
     Returned (midnight_host\<lparr>disk_log := disk_log midnight_host
                 @ [mkEntry ''auto_restart_started'' (startedData midnight_host) midnight_host]\<rparr>)"
proof -
  have f: "stateReadable midnight_host \<and> logDirCreatable midnight_host \<and> logWritable midnight_host
           \<and> envRestarted midnight_host = [] \<and> restartCount midnight_host = 0
           \<and> lastRestart midnight_host = 0 \<and> localOffset midnight_host = 0
           \<and> clock midnight_host = 1762128005000
           \<and> disk_state midnight_host = ParsedObject (currentDoc (restarted late_host))"
    unfolding midnight_host_def relaunch_def late_restart_eq
    by (simp add: constructor_def late_host_def fresh_host_def)
  have "\<not> sameDay midnight_host (currentDoc (restarted late_host))"
    using f by (simp add: sameDay_def toDateString_def currentDoc_def restarted_def late_host_def)
  with f have "\<not> stateReadable midnight_host
      \<or> (\<forall>d. disk_state midnight_host = ParsedObject d \<longrightarrow> \<not> sameDay midnight_host d)"
    by simp
  from load_zero [OF this] f
  have l: "loadRestartState midnight_host = Returned midnight_host"
    by (metis (no_types) proc.surjective proc.update_convs(1) proc.update_convs(4))
  show ?thesis
    using f by (simp add: start_eq started_def l logEvent_eq logFailure_def)
qed

text \<open>
  C2 as stated fails across midnight. A first request at 23:59:50 passes the guards,
  increments the counter, sets \<open>lastRestart\<close> and saves. The process is relaunched and
  \<open>start\<close> runs at 00:00:05: the saved document is of another calendar day, so
  \<open>loadRestartState\<close> resets \<open>restartCount\<close> and \<open>lastRestart\<close> to 0 (lines 340 to 344). A second
  request, fifteen seconds after the first, in a process that is not shutting down and
  is below the limit, is not blocked: it initiates another restart, changes both fields
  and writes no \<open>restart_blocked\<close> line.
\<close>

theorem second_request_after_midnight:
  "clock midnight_host - clock late_host = 15000 \<and> restartCooldown midnight_host = 30000
   \<and> \<not> isShuttingDown late_host \<and> restartCount late_host < maxRestarts late_host
   \<and> (\<exists>first'. initiateRestart ''ENOSPC'' late_host = Returned first'
          \<and> restartCount first' = 1 \<and> lastRestart first' = 1762127990000
          \<and> disk_state midnight_host = disk_state first')
   \<and> (\<exists>loaded second'. start midnight_host = Returned loaded
          \<and> \<not> isShuttingDown loaded \<and> restartCount loaded = 0 \<and> lastRestart loaded = 0
          \<and> restartCount loaded < maxRestarts loaded
          \<and> initiateRestart ''ENOSPC'' loaded = Returned second'
          \<and> restartCount second' = 1 \<and> lastRestart second' = 1762128005000
          \<and> isShuttingDown second' \<and> timers second' = [(1762128007000, 0)]
          \<and> map le_type (disk_log second')
              = [''restart_initiated'', ''restart_initiated_render'', ''auto_restart_started'',
                 ''restart_initiated'', ''restart_initiated_render''])"
proof -
  let ?loaded = "midnight_host\<lparr>disk_log := disk_log midnight_host
                 @ [mkEntry ''auto_restart_started'' (startedData midnight_host) midnight_host]\<rparr>"
  have f: "clock midnight_host = 1762128005000 \<and> restartCooldown midnight_host = 30000
           \<and> maxRestarts midnight_host = 5 \<and> restartCount midnight_host = 0
           \<and> lastRestart midnight_host = 0 \<and> \<not> isShuttingDown midnight_host
           \<and> logDirCreatable midnight_host \<and> logWritable midnight_host
           \<and> timers midnight_host = []
           \<and> map le_type (disk_log midnight_host) = [''restart_initiated'', ''restart_initiated_render'']
           \<and> disk_state midnight_host = ParsedObject (currentDoc (restarted late_host))"
    unfolding midnight_host_def relaunch_def late_restart_eq
    by (simp add: constructor_def late_host_def fresh_host_def mkEntry_def)
  have l: "clock late_host = 1762127990000 \<and> \<not> isShuttingDown late_host
           \<and> restartCount late_host < maxRestarts late_host"
    by (simp add: late_host_def constructor_def fresh_host_def)
  have g: "\<not> isShuttingDown ?loaded"
      "restartCooldown ?loaded \<le> clock ?loaded - lastRestart ?loaded"
      "restartCount ?loaded < maxRestarts ?loaded"
    using f by simp_all
  have 1: "\<exists>first'. initiateRestart ''ENOSPC'' late_host = Returned first'
          \<and> restartCount first' = 1 \<and> lastRestart first' = 1762127990000
          \<and> disk_state midnight_host = disk_state first'"
    using f by (simp add: late_restart_eq)
  have 2: "\<exists>loaded second'. start midnight_host = Returned loaded
          \<and> \<not> isShuttingDown loaded \<and> restartCount loaded = 0 \<and> lastRestart loaded = 0
          \<and> restartCount loaded < maxRestarts loaded
          \<and> initiateRestart ''ENOSPC'' loaded = Returned second'
          \<and> restartCount second' = 1 \<and> lastRestart second' = 1762128005000
          \<and> isShuttingDown second' \<and> timers second' = [(1762128007000, 0)]
          \<and> map le_type (disk_log second')
              = [''restart_initiated'', ''restart_initiated_render'', ''auto_restart_started'',
                 ''restart_initiated'', ''restart_initiated_render'']"
    unfolding midnight_start_eq
    apply (rule exI [of _ ?loaded])
    apply (rule exI [of _ "stateOf (initiateRestart ''ENOSPC'' ?loaded)"])
    unfolding initiateRestart_go_eq [OF g]
    using f by (simp add: mkEntry_def)
  from f l 1 2 show ?thesis by simp
qed

section \<open>The restart limit\<close>








section \<open>The shutdown latch\<close>

lemma occur_moves:
  assumes "sameLifetime e"
  shows "if isShuttingDown s then isShuttingDown (occur e s) \<and> marks (occur e s) = marks s else True"
proof (cases e)
  case (Call c)
  with assms have "\<And>ty d. c = LogEvent ty d \<Longrightarrow> \<not> marked ty" by auto
  then have "moves s (stateOf (run c s))" by (rule run_moves)
  with Call show ?thesis by (simp add: moves_def)
next
  case (World w)
  then show ?thesis by (simp add: withEnvironmentOf_def marks_def)
next
  case Relaunch
  with assms show ?thesis by simp
qed

lemma history_latched:
  assumes "list_all sameLifetime es" "isShuttingDown s"
  shows "isShuttingDown (history es s) \<and> marks (history es s) = marks s"
  using assms
proof (induction es arbitrary: s)
  case Nil
  then show ?case by simp
next
  case (Cons e es)
  from Cons.prems have e: "sameLifetime e" and es: "list_all sameLifetime es" by simp_all
  from occur_moves [OF e, of s] Cons.prems(2)
  have 1: "isShuttingDown (occur e s)" and 2: "marks (occur e s) = marks s" by simp_all
  from Cons.IH [OF es 1] 2 show ?case by simp
qed

text \<open>
  C3. Once \<open>isShuttingDown\<close> is true, a call of \<open>initiateRestart\<close> or of \<open>gracefulShutdown\<close>
  returns at its first line and leaves the whole process as it was. The flag is never
  cleared: after any events of the same lifetime of the process (calls of the
  supervisor's methods, changes of the environment; a relaunch starts another lifetime,
  and other code calling \<open>logEvent\<close> itself with one of the two types is left out), the
  process is still shutting down, the log holds no further line of type
  \<open>restart_initiated\<close> or \<open>graceful_shutdown\<close>, and the two entry points are still no-ops.
\<close>

theorem shutdown_latch:
  assumes "isShuttingDown s" and "list_all sameLifetime es"
  shows "initiateRestart reason s = Returned s \<and> gracefulShutdown signal s = Returned s
       \<and> isShuttingDown (history es s) \<and> marks (history es s) = marks s
       \<and> initiateRestart reason (history es s) = Returned (history es s)
       \<and> gracefulShutdown signal (history es s) = Returned (history es s)"
proof -
  from history_latched [OF assms(2) assms(1)]
  have h: "isShuttingDown (history es s)" "marks (history es s) = marks s" by simp_all
  from assms(1) h show ?thesis
    by (simp add: initiateRestart_def gracefulShutdown_def)
qed

lemma stopping_host_eq:
  "stopping_host =
     (constructor fresh_host)
       \<lparr>isShuttingDown := True,
        disk_log := [mkEntry ''graceful_shutdown'' (JS ''SIGTERM'') fresh_host],
        timers := [(1762077602000, 0)]\<rparr>"
proof -
  have "\<not> isShuttingDown (constructor fresh_host)" by (simp add: constructor_def)
  then show ?thesis
    unfolding stopping_host_def
    by (simp add: gracefulShutdown_eq constructor_def fresh_host_def logFailure_def killEffects_def
          mkEntry_def)
qed

theorem shutdown_latch_witness:
  "isShuttingDown stopping_host \<and> list_all sameLifetime afterwards
   \<and> initiateRestart ''late'' stopping_host = Returned stopping_host
   \<and> gracefulShutdown ''SIGUSR2'' stopping_host = Returned stopping_host
   \<and> isShuttingDown (history afterwards stopping_host)
   \<and> map le_type (marks (history afterwards stopping_host)) = [''graceful_shutdown'']"
proof -
  have a: "isShuttingDown stopping_host" by (simp add: stopping_host_eq)
  have b: "list_all sameLifetime afterwards" by (simp add: afterwards_def)
  have c: "map le_type (marks stopping_host) = [''graceful_shutdown'']"
    by (simp add: stopping_host_eq marks_def marked_def mkEntry_def)
  from shutdown_latch [OF a b, of "''late''" "''SIGUSR2''"] a b c show ?thesis by simp
qed

section \<open>The policy parameters\<close>

lemma occur_policy:
  assumes "policy s = (5, 30000, sixPatterns)"
  shows "policy (occur e s) = (5, 30000, sixPatterns)"
proof (cases e)
  case (Call c)
  with assms run_keeps [of c s] show ?thesis by simp
next
  case (World w)
  with assms show ?thesis by (simp add: withEnvironmentOf_def policy_def)
next
  case Relaunch
  then show ?thesis by (simp add: relaunch_def constructor_def policy_def sixPatterns_def)
qed

lemma history_policy:
  "policy s = (5, 30000, sixPatterns) \<Longrightarrow> policy (history es s) = (5, 30000, sixPatterns)"
  by (induction es arbitrary: s) (simp_all add: occur_policy)

text \<open>
  C10. The constructor takes no configuration. Every constructed object has
  \<open>maxRestarts = 5\<close>, \<open>restartCooldown = 30000\<close> and the six patterns, and registers the
  memory check every 60000 ms. \<open>checkMemoryUsage\<close> compares the rounded heap use with the
  literals 512 and 1024: above 1024 MB it logs \<open>high_memory\<close> and requests a restart, above
  512 MB it only logs, else it does nothing. No method of the class changes
  \<open>maxRestarts\<close>, \<open>restartCooldown\<close> or \<open>criticalErrors\<close>, so that after any history of a
  constructed object they have the constructor's values.
\<close>

theorem policy_is_constant:
  "maxRestarts (constructor env) = 5 \<and> restartCooldown (constructor env) = 30000
   \<and> criticalErrors (constructor env) =
        [''ENOSPC'', ''ENOMEM'', ''EMFILE'', ''ECONNRESET'', ''ERR_UNHANDLED_ERROR'',
         ''UnhandledPromiseRejectionWarning'']
   \<and> length (criticalErrors (constructor env)) = 6
   \<and> trace (constructor env) =
        trace env @ [OnEvent ''uncaughtException'', OnEvent ''unhandledRejection'',
                     OnEvent ''warning'', SetInterval 60000,
                     OnEvent ''SIGTERM'', OnEvent ''SIGINT'', OnEvent ''SIGUSR2'']
   \<and> checkMemoryUsage s =
        (if roundMB (heapUsed (memoryUsage s)) > 1024
         then initiateRestart (memoryReason (roundMB (heapUsed (memoryUsage s))))
                (stateOf (logEvent ''high_memory'' (highMemoryData s) s))
         else if roundMB (heapUsed (memoryUsage s)) > 512
         then logEvent ''high_memory'' (highMemoryData s) s
         else Returned s)
   \<and> maxRestarts (stateOf (run c s)) = maxRestarts s
   \<and> restartCooldown (stateOf (run c s)) = restartCooldown s
   \<and> criticalErrors (stateOf (run c s)) = criticalErrors s
   \<and> maxRestarts (history es (constructor env)) = 5
   \<and> restartCooldown (history es (constructor env)) = 30000
   \<and> criticalErrors (history es (constructor env)) = criticalErrors (constructor env)"
proof -
  have "policy (constructor env) = (5, 30000, sixPatterns)"
    by (simp add: constructor_def policy_def sixPatterns_def)
  then have "policy (history es (constructor env)) = (5, 30000, sixPatterns)"
    by (rule history_policy)
  moreover have "policy (stateOf (run c s)) = policy s"
    using run_keeps [of c s] by simp
  ultimately show ?thesis
    using checkMemoryUsage_eq [of s]
    by (simp add: policy_def constructor_def sixPatterns_def usedMB_def)
qed

theorem policy_is_constant_witness:
  "maxRestarts (constructor fresh_host) = 5 \<and> restartCooldown (constructor fresh_host) = 30000
   \<and> length (criticalErrors (constructor fresh_host)) = 6
   \<and> checkMemoryUsage (constructor fresh_host) = Returned (constructor fresh_host)
   \<and> maxRestarts (stateOf (run (InitiateRestart ''x'') (constructor fresh_host))) = 5
   \<and> maxRestarts (history afterwards (constructor fresh_host)) = 5"
proof -
  have m: "roundMB (heapUsed (memoryUsage (constructor fresh_host))) = 95"
    by (simp add: constructor_def fresh_host_def roundMB_def)
  from policy_is_constant [of fresh_host "constructor fresh_host" "InitiateRestart ''x''" afterwards] m
  show ?thesis by simp
qed

section \<open>The restart sequence\<close>




section \<open>Classifying an error\<close>

lemma startsWith_iff: "startsWith s p \<longleftrightarrow> (\<exists>post. s = p @ post)"
  by (induction s p rule: startsWith.induct) auto

lemma str_includes_iff: "str_includes s p \<longleftrightarrow> (\<exists>pre post. s = pre @ p @ post)"
proof (induction s)
  case Nil
  then show ?case by auto
next
  case (Cons c cs)
  show ?case
  proof
    assume "str_includes (c # cs) p"
    then consider "startsWith (c # cs) p" | "str_includes cs p" by auto
    then show "\<exists>pre post. c # cs = pre @ p @ post"
    proof cases
      case 1
      then obtain post where "c # cs = p @ post" by (auto simp add: startsWith_iff)
      then have "c # cs = [] @ p @ post" by simp
      then show ?thesis by blast
    next
      case 2
      with Cons.IH obtain pre post where "cs = pre @ p @ post" by blast
      then have "c # cs = (c # pre) @ p @ post" by simp
      then show ?thesis by blast
    qed
  next
    assume "\<exists>pre post. c # cs = pre @ p @ post"
    then obtain pre post where e: "c # cs = pre @ p @ post" by blast
    show "str_includes (c # cs) p"
    proof (cases pre)
      case Nil
      with e have "startsWith (c # cs) p" by (auto simp add: startsWith_iff)
      then show ?thesis by simp
    next
      case (Cons a pre')
      with e have "cs = pre' @ p @ post" by simp
      with Cons.IH have "str_includes cs p" by blast
      then show ?thesis by simp
    qed
  qed
qed

text \<open>
  C5. The decision of lines 150 to 152, on the message and the code that
  \<open>handleCriticalError\<close> has extracted, is a function of the pattern list, the message and
  the code alone. It is true exactly when some pattern occurs in the message as a
  contiguous run of the same characters (so the case of the letters counts), or the code
  is the string of some pattern; a numeric code equals no pattern. For a message that is
  a string the handler acts on this decision and nothing else: it requests a restart when
  it is true, and when it is false it only logs and prints, leaving every field of the
  supervisor, the state file, the pid file and the timers as they were.
\<close>

theorem classification:
  "(needsRestart patterns errorMessage errorCode \<longleftrightarrow>
      (\<exists>p \<in> set patterns. (\<exists>pre post. errorMessage = pre @ p @ post) \<or> errorCode = Str p))
   \<and> (errorMessageOf error = Str m \<longrightarrow>
        handleCriticalError ty error s =
          (if needsRestart (criticalErrors s) m (errorCodeOf error)
           then initiateRestart (criticalReason error)
                  (stateOf (logEvent ''critical_error'' (criticalData ty error s) s))
           else emit (notCriticalText ty error)
                  (stateOf (logEvent ''critical_error'' (criticalData ty error s) s))))
   \<and> (errorMessageOf error = Str m \<and> \<not> needsRestart (criticalErrors s) m (errorCodeOf error) \<longrightarrow>
        (\<exists>s'. handleCriticalError ty error s = Returned s'
           \<and> restartCount s' = restartCount s \<and> lastRestart s' = lastRestart s
           \<and> isShuttingDown s' = isShuttingDown s \<and> childProcess s' = childProcess s
           \<and> maxRestarts s' = maxRestarts s \<and> restartCooldown s' = restartCooldown s
           \<and> criticalErrors s' = criticalErrors s
           \<and> disk_state s' = disk_state s \<and> disk_pid s' = disk_pid s \<and> timers s' = timers s))"
proof (intro conjI impI)
  show "needsRestart patterns errorMessage errorCode \<longleftrightarrow>
      (\<exists>p \<in> set patterns. (\<exists>pre post. errorMessage = pre @ p @ post) \<or> errorCode = Str p)"
    by (simp add: needsRestart_def list_ex_iff str_includes_iff)
next
  assume "errorMessageOf error = Str m"
  then show "handleCriticalError ty error s =
          (if needsRestart (criticalErrors s) m (errorCodeOf error)
           then initiateRestart (criticalReason error)
                  (stateOf (logEvent ''critical_error'' (criticalData ty error s) s))
           else emit (notCriticalText ty error)
                  (stateOf (logEvent ''critical_error'' (criticalData ty error s) s)))"
    by (simp add: handleCriticalError_eq classify_def)
next
  assume "errorMessageOf error = Str m \<and> \<not> needsRestart (criticalErrors s) m (errorCodeOf error)"
  then show "\<exists>s'. handleCriticalError ty error s = Returned s'
           \<and> restartCount s' = restartCount s \<and> lastRestart s' = lastRestart s
           \<and> isShuttingDown s' = isShuttingDown s \<and> childProcess s' = childProcess s
           \<and> maxRestarts s' = maxRestarts s \<and> restartCooldown s' = restartCooldown s
           \<and> criticalErrors s' = criticalErrors s
           \<and> disk_state s' = disk_state s \<and> disk_pid s' = disk_pid s \<and> timers s' = timers s"
    by (simp add: handleCriticalError_eq classify_def logEvent_eq emit_def)
qed

theorem classification_witness:
  "needsRestart (criticalErrors (constructor fresh_host)) ''write failed: ENOMEM (12)'' (Str ''UNKNOWN'')
   \<and> needsRestart (criticalErrors (constructor fresh_host)) ''read failed'' (Str ''ECONNRESET'')
   \<and> \<not> needsRestart (criticalErrors (constructor fresh_host)) ''socket hang up: enospc'' (Str ''ETIMEDOUT'')
   \<and> \<not> needsRestart (criticalErrors (constructor fresh_host)) ''read failed'' (Num (- 28))
   \<and> errorMessageOf (Some timeout_error) = Str ''socket hang up: enospc''
   \<and> (\<exists>s'. handleCriticalError ''unhandledRejection'' (Some timeout_error) (constructor fresh_host)
            = Returned s'
          \<and> restartCount s' = 0 \<and> lastRestart s' = 0 \<and> \<not> isShuttingDown s' \<and> timers s' = [])"
proof -
  let ?ps = "criticalErrors (constructor fresh_host)"
  have ps: "?ps = [''ENOSPC'', ''ENOMEM'', ''EMFILE'', ''ECONNRESET'', ''ERR_UNHANDLED_ERROR'',
                   ''UnhandledPromiseRejectionWarning'']"
    by (simp add: constructor_def)
  note t = classification [THEN conjunct1]
  have 1: "needsRestart ?ps ''write failed: ENOMEM (12)'' (Str ''UNKNOWN'')"
  proof -
    have "''write failed: ENOMEM (12)'' = ''write failed: '' @ ''ENOMEM'' @ '' (12)''" by simp
    then have "\<exists>p \<in> set ?ps. (\<exists>pre post. ''write failed: ENOMEM (12)'' = pre @ p @ post)
                 \<or> Str ''UNKNOWN'' = Str p"
      unfolding ps by (metis list.set_intros(1,2))
    with t show ?thesis by blast
  qed
  have 2: "needsRestart ?ps ''read failed'' (Str ''ECONNRESET'')"
    using t [of ?ps "''read failed''" "Str ''ECONNRESET''"] by (simp add: ps)
  have 3: "\<not> needsRestart ?ps ''socket hang up: enospc'' (Str ''ETIMEDOUT'')"
    unfolding ps by (simp add: needsRestart_def)
  have 4: "\<not> needsRestart ?ps ''read failed'' (Num (- 28))"
    unfolding ps by (simp add: needsRestart_def)
  have 5: "errorMessageOf (Some timeout_error) = Str ''socket hang up: enospc''"
    by (simp add: errorMessageOf_def timeout_error_def orElse_def)
  have 6: "errorCodeOf (Some timeout_error) = Str ''ETIMEDOUT''"
    by (simp add: errorCodeOf_def timeout_error_def orElse_def)
  from classification [THEN conjunct2, THEN conjunct2, rule_format,
         of "Some timeout_error" "''socket hang up: enospc''" "constructor fresh_host"
            "''unhandledRejection''"] 3 5 6
  have 7: "\<exists>s'. handleCriticalError ''unhandledRejection'' (Some timeout_error) (constructor fresh_host)
            = Returned s'
          \<and> restartCount s' = 0 \<and> lastRestart s' = 0 \<and> \<not> isShuttingDown s' \<and> timers s' = []"
    by (auto simp add: constructor_def fresh_host_def)
  from 1 2 3 4 5 7 show ?thesis by blast
qed

section \<open>A failing log\<close>

lemma classify_throws:
  "(\<exists>e. classify patterns errorMessage errorCode = Inl e)
     \<longleftrightarrow> (patterns \<noteq> [] \<and> (\<forall>m. errorMessage \<noteq> Str m))"
  by (cases errorMessage) (auto simp add: classify_def)

text \<open>
  C9. \<open>logEvent\<close> returns normally for every type and payload, whether or not the log
  directory can be created and the line appended: a failure is caught by its own handler,
  which prints the message and leaves the log as it was. The counters, the shutdown flag
  and the timers are untouched.

  So the body of the \<open>try\<close> of \<open>handleCriticalError\<close> never throws because of the log. It
  throws exactly when there is a pattern to test and the extracted message is no string
  (then \<open>errorMessage.includes\<close> is no function): a condition in which the state of the
  log plays no part. For a message that is a string the handler is its \<open>try\<close> body and
  returns; the fallback that forces a restart is not taken.
\<close>

theorem logEvent_never_raises:
  "(\<exists>s'. logEvent ty d s = Returned s'
       \<and> restartCount s' = restartCount s \<and> lastRestart s' = lastRestart s
       \<and> isShuttingDown s' = isShuttingDown s \<and> timers s' = timers s
       \<and> disk_log s' = (if logDirCreatable s \<and> logWritable s then disk_log s @ [mkEntry ty d s]
                         else disk_log s)
       \<and> trace s' = trace s @ logFailure s)
   \<and> ((\<exists>e s'. handleCriticalError_try kind error s = Threw e s')
        \<longleftrightarrow> (criticalErrors s \<noteq> [] \<and> (\<forall>m. errorMessageOf error \<noteq> Str m)))
   \<and> (errorMessageOf error = Str m \<longrightarrow>
        handleCriticalError kind error s = handleCriticalError_try kind error s
        \<and> (\<exists>s'. handleCriticalError kind error s = Returned s'))"
proof (intro conjI impI)
  show "\<exists>s'. logEvent ty d s = Returned s'
       \<and> restartCount s' = restartCount s \<and> lastRestart s' = lastRestart s
       \<and> isShuttingDown s' = isShuttingDown s \<and> timers s' = timers s
       \<and> disk_log s' = (if logDirCreatable s \<and> logWritable s then disk_log s @ [mkEntry ty d s]
                         else disk_log s)
       \<and> trace s' = trace s @ logFailure s"
    by (simp add: logEvent_eq)
next
  let ?s1 = "stateOf (logEvent ''critical_error'' (criticalData kind error s) s)"
  obtain r where r: "initiateRestart (criticalReason error) ?s1 = Returned r"
    using initiateRestart_returns by blast
  show "(\<exists>e s'. handleCriticalError_try kind error s = Threw e s')
        \<longleftrightarrow> (criticalErrors s \<noteq> [] \<and> (\<forall>m. errorMessageOf error \<noteq> Str m))"
  proof (cases "classify (criticalErrors s) (errorMessageOf error) (errorCodeOf error)")
    case (Inl e)
    then have "handleCriticalError_try kind error s = Threw e ?s1"
      by (simp add: handleCriticalError_try_eq)
    moreover from Inl have "criticalErrors s \<noteq> [] \<and> (\<forall>m. errorMessageOf error \<noteq> Str m)"
      using classify_throws [of "criticalErrors s" "errorMessageOf error" "errorCodeOf error"]
      by blast
    ultimately show ?thesis by blast
  next
    case (Inr b)
    with r have "\<exists>s'. handleCriticalError_try kind error s = Returned s'"
      by (cases b) (simp_all add: handleCriticalError_try_eq emit_def)
    moreover from Inr have "\<not> (criticalErrors s \<noteq> [] \<and> (\<forall>m. errorMessageOf error \<noteq> Str m))"
      using classify_throws [of "criticalErrors s" "errorMessageOf error" "errorCodeOf error"]
      by auto
    ultimately show ?thesis by auto
  qed
next
  assume m: "errorMessageOf error = Str m"
  let ?s1 = "stateOf (logEvent ''critical_error'' (criticalData kind error s) s)"
  obtain r where r: "initiateRestart (criticalReason error) ?s1 = Returned r"
    using initiateRestart_returns by blast
  from m r show "handleCriticalError kind error s = handleCriticalError_try kind error s"
    by (simp add: handleCriticalError_eq handleCriticalError_try_eq classify_def)
  from m r show "\<exists>s'. handleCriticalError kind error s = Returned s'"
    by (cases "needsRestart (criticalErrors s) m (errorCodeOf error)")
       (simp_all add: handleCriticalError_eq classify_def emit_def)
qed

theorem logEvent_never_raises_witness:
  "\<not> logDirCreatable mute_host \<and> \<not> logWritable mute_host
   \<and> (\<exists>s'. logEvent ''critical_error'' (JS ''x'') mute_host = Returned s'
          \<and> disk_log s' = [] \<and> restartCount s' = 0)
   \<and> errorMessageOf (Some enospc) = Str ''ENOSPC: no space left on device, write''
   \<and> (\<exists>s'. handleCriticalError_try ''uncaughtException'' (Some enospc) mute_host = Returned s')
   \<and> handleCriticalError ''uncaughtException'' (Some enospc) mute_host
       = handleCriticalError_try ''uncaughtException'' (Some enospc) mute_host
   \<and> (\<exists>e s'. handleCriticalError_try ''unhandledRejection'' (Some odd_rejection) (constructor fresh_host)
                = Threw e s')"
proof -
  have a: "\<not> logDirCreatable mute_host \<and> \<not> logWritable mute_host \<and> disk_log mute_host = []
           \<and> restartCount mute_host = 0"
    by (simp add: mute_host_def constructor_def fresh_host_def)
  have m: "errorMessageOf (Some enospc) = Str ''ENOSPC: no space left on device, write''"
    by (simp add: errorMessageOf_def enospc_def orElse_def)
  have o: "criticalErrors (constructor fresh_host) \<noteq> []
           \<and> (\<forall>m. errorMessageOf (Some odd_rejection) \<noteq> Str m)"
    by (simp add: constructor_def errorMessageOf_def odd_rejection_def orElse_def)
  from logEvent_never_raises [of "''critical_error''" "JS ''x''" mute_host, THEN conjunct1] a
  have 1: "\<exists>s'. logEvent ''critical_error'' (JS ''x'') mute_host = Returned s'
          \<and> disk_log s' = [] \<and> restartCount s' = 0"
    by auto
  from logEvent_never_raises [THEN conjunct2, THEN conjunct2, rule_format, OF m]
  have 2: "handleCriticalError ''uncaughtException'' (Some enospc) mute_host
             = handleCriticalError_try ''uncaughtException'' (Some enospc) mute_host"
    and 3: "\<exists>s'. handleCriticalError ''uncaughtException'' (Some enospc) mute_host = Returned s'"
    by blast+
  from 2 3 have 4: "\<exists>s'. handleCriticalError_try ''uncaughtException'' (Some enospc) mute_host
                          = Returned s'"
    by simp
  from logEvent_never_raises [THEN conjunct2, THEN conjunct1,
         of "''unhandledRejection''" "Some odd_rejection" "constructor fresh_host"] o
  have 5: "\<exists>e s'. handleCriticalError_try ''unhandledRejection'' (Some odd_rejection)
                   (constructor fresh_host) = Threw e s'"
    by blast
  from a m 1 2 4 5 show ?thesis by blast
qed

section \<open>Loading the state\<close>

text \<open>
  C8. \<open>loadRestartState\<close> returns normally whatever is on the disk. When the state file is
  missing, cannot be read, holds text that is no JSON, holds \<open>null\<close>, holds a JSON value
  without the fields, or holds an object with no valid timestamp, it returns with
  \<open>restartCount = 0\<close> and \<open>lastRestart = 0\<close> and changes nothing else.
\<close>

theorem load_never_raises:
  "(\<exists>s'. loadRestartState s = Returned s')
   \<and> (\<not> stateReadable s \<or> disk_state s = Missing \<or> disk_state s = Unparseable
        \<or> disk_state s = ParsedNull \<or> disk_state s = ParsedOther
        \<or> (\<exists>d. disk_state s = ParsedObject d \<and> sd_timestamp d = None)
       \<longrightarrow> loadRestartState s = Returned (s\<lparr>restartCount := 0, lastRestart := 0\<rparr>))"
proof (intro conjI impI)
  show "\<exists>s'. loadRestartState s = Returned s'" by (rule load_returns)
next
  assume a: "\<not> stateReadable s \<or> disk_state s = Missing \<or> disk_state s = Unparseable
        \<or> disk_state s = ParsedNull \<or> disk_state s = ParsedOther
        \<or> (\<exists>d. disk_state s = ParsedObject d \<and> sd_timestamp d = None)"
  have "\<not> stateReadable s \<or> (\<forall>d. disk_state s = ParsedObject d \<longrightarrow> \<not> sameDay s d)"
    using a by (auto simp add: sameDay_def toDateString_def)
  then show "loadRestartState s = Returned (s\<lparr>restartCount := 0, lastRestart := 0\<rparr>)"
    by (rule load_zero)
qed

theorem load_never_raises_witness:
  "disk_state torn_host = Unparseable \<and> restartCount torn_host = 3
   \<and> (\<exists>s'. loadRestartState torn_host = Returned s' \<and> restartCount s' = 0 \<and> lastRestart s' = 0)
   \<and> loadRestartState (constructor fresh_host) = Returned (constructor fresh_host)"
proof -
  have a: "disk_state torn_host = Unparseable \<and> restartCount torn_host = 3"
    by (simp add: torn_host_def)
  have b: "disk_state (constructor fresh_host) = Missing
           \<and> (constructor fresh_host)\<lparr>restartCount := 0, lastRestart := 0\<rparr> = constructor fresh_host"
    by (simp add: constructor_def fresh_host_def)
  from load_never_raises [of torn_host, THEN conjunct2] a
  have 1: "loadRestartState torn_host = Returned (torn_host\<lparr>restartCount := 0, lastRestart := 0\<rparr>)"
    by blast
  from load_never_raises [of "constructor fresh_host", THEN conjunct2] b
  have 2: "loadRestartState (constructor fresh_host) = Returned (constructor fresh_host)"
    by simp
  from a 1 2 show ?thesis by simp
qed

text \<open>
  C6. Let \<open>saveRestartState\<close> have completed its write in a process \<open>s\<close>, and let \<open>later\<close> be
  any process that finds that file at the state path and can read it. Then
  \<open>loadRestartState\<close> returns; when the local calendar day of \<open>later\<close> is the day the file
  was saved, the loaded \<open>restartCount\<close> and \<open>lastRestart\<close> are the saved ones; on any other
  day, the next one included, both are 0.
\<close>

theorem save_load_roundtrip:
  assumes "stateWrite s = Completes"
    and "disk_state later = disk_state (stateOf (saveRestartState s))"
    and "stateReadable later"
  shows "\<exists>s'. loadRestartState later = Returned s'
           \<and> (if toDateString later (Some (clock later)) = toDateString later (Some (clock s))
               then restartCount s' = restartCount s \<and> lastRestart s' = lastRestart s
               else restartCount s' = 0 \<and> lastRestart s' = 0)"
proof -
  from assms(1,2) have d: "disk_state later = ParsedObject (currentDoc s)"
    by (simp add: saveRestartState_eq)
  show ?thesis
  proof (cases "sameDay later (currentDoc s)")
    case True
    from load_today [OF assms(3) d True] True show ?thesis
      by (simp add: logEvent_eq sameDay_def currentDoc_def orZero_def)
  next
    case False
    with d have "\<not> stateReadable later
        \<or> (\<forall>d. disk_state later = ParsedObject d \<longrightarrow> \<not> sameDay later d)" by simp
    from load_zero [OF this] False show ?thesis
      by (simp add: sameDay_def currentDoc_def)
  qed
qed

theorem save_load_roundtrip_witness:
  "stateWrite counted_host = Completes \<and> stateReadable same_day_host \<and> stateReadable next_day_host
   \<and> disk_state same_day_host = disk_state (stateOf (saveRestartState counted_host))
   \<and> disk_state next_day_host = disk_state (stateOf (saveRestartState counted_host))
   \<and> restartCount same_day_host = 0
   \<and> (\<exists>s'. loadRestartState same_day_host = Returned s'
          \<and> restartCount s' = 2 \<and> lastRestart s' = 1762077000000)
   \<and> (\<exists>s'. loadRestartState next_day_host = Returned s'
          \<and> restartCount s' = 0 \<and> lastRestart s' = 0)"
proof -
  have a: "stateWrite counted_host = Completes"
    by (simp add: counted_host_def constructor_def fresh_host_def)
  have b: "disk_state same_day_host = disk_state (stateOf (saveRestartState counted_host))"
      "disk_state next_day_host = disk_state (stateOf (saveRestartState counted_host))"
    by (simp_all add: same_day_host_def next_day_host_def relaunch_def constructor_def)
  have c: "stateReadable same_day_host" "stateReadable next_day_host"
    by (simp_all add: same_day_host_def next_day_host_def relaunch_def constructor_def
          saveRestartState_eq counted_host_def fresh_host_def)
  have d: "restartCount same_day_host = 0"
    by (simp add: same_day_host_def relaunch_def constructor_def)
  have e: "toDateString same_day_host (Some (clock same_day_host))
             = toDateString same_day_host (Some (clock counted_host))"
      "toDateString next_day_host (Some (clock next_day_host))
             \<noteq> toDateString next_day_host (Some (clock counted_host))"
      "restartCount counted_host = 2" "lastRestart counted_host = 1762077000000"
    by (simp_all add: same_day_host_def next_day_host_def relaunch_def constructor_def
          saveRestartState_eq counted_host_def fresh_host_def toDateString_def)
  from save_load_roundtrip [OF a b(1) c(1)] e
  have 1: "\<exists>s'. loadRestartState same_day_host = Returned s'
          \<and> restartCount s' = 2 \<and> lastRestart s' = 1762077000000"
    by simp
  from save_load_roundtrip [OF a b(2) c(2)] e
  have 2: "\<exists>s'. loadRestartState next_day_host = Returned s'
          \<and> restartCount s' = 0 \<and> lastRestart s' = 0"
    by simp
  from a b c d 1 2 show ?thesis by blast
qed

section \<open>Saving the state\<close>

lemma moments_last:
  "last (saveRestartState_moments s) = disk_state (stateOf (saveRestartState s))"
  by (cases "stateWrite s")
     (simp_all add: saveRestartState_moments_def fs_writeFile_state_moments_def saveRestartState_eq)

text \<open>
  C7, as the code has it. \<open>saveRestartState\<close> writes the serialised state straight to the
  state path with one \<open>fs.writeFile\<close>; there is no temporary file and no rename. Over the
  course of the call the state path holds the old file, then, between the opening of the
  file and the last byte, a truncated text, then the new document; what is there at the
  end is what the call leaves. The call itself always returns, a failed write being
  caught and printed as a warning. A truncated file does no harm to the next start:
  \<open>loadRestartState\<close> reads it as the zero state.
\<close>

theorem save_writes_in_place:
  "set (saveRestartState_moments s) \<subseteq> {disk_state s, Unparseable, ParsedObject (currentDoc s)}
   \<and> hd (saveRestartState_moments s) = disk_state s
   \<and> last (saveRestartState_moments s) = disk_state (stateOf (saveRestartState s))
   \<and> (stateWrite s = Completes \<longrightarrow>
        saveRestartState_moments s = [disk_state s, Unparseable, ParsedObject (currentDoc s)])
   \<and> (\<exists>s'. saveRestartState s = Returned s')
   \<and> (disk_state r = Unparseable \<longrightarrow>
        loadRestartState r = Returned (r\<lparr>restartCount := 0, lastRestart := 0\<rparr>))"
proof (intro conjI impI)
  show "set (saveRestartState_moments s) \<subseteq> {disk_state s, Unparseable, ParsedObject (currentDoc s)}"
    by (cases "stateWrite s")
       (simp_all add: saveRestartState_moments_def fs_writeFile_state_moments_def)
  show "hd (saveRestartState_moments s) = disk_state s"
    by (cases "stateWrite s")
       (simp_all add: saveRestartState_moments_def fs_writeFile_state_moments_def)
  show "last (saveRestartState_moments s) = disk_state (stateOf (saveRestartState s))"
    by (rule moments_last)
  show "\<exists>s'. saveRestartState s = Returned s'" by (simp add: saveRestartState_eq)
next
  assume "stateWrite s = Completes"
  then show "saveRestartState_moments s = [disk_state s, Unparseable, ParsedObject (currentDoc s)]"
    by (simp add: saveRestartState_moments_def fs_writeFile_state_moments_def)
next
  assume "disk_state r = Unparseable"
  then have "\<not> stateReadable r \<or> (\<forall>d. disk_state r = ParsedObject d \<longrightarrow> \<not> sameDay r d)" by simp
  then show "loadRestartState r = Returned (r\<lparr>restartCount := 0, lastRestart := 0\<rparr>)"
    by (rule load_zero)
qed

theorem save_writes_in_place_witness:
  "stateWrite resaving_host = Completes
   \<and> saveRestartState_moments resaving_host
       = [fifth_file, Unparseable, ParsedObject (currentDoc resaving_host)]
   \<and> disk_state torn_host = Unparseable
   \<and> loadRestartState torn_host = Returned (torn_host\<lparr>restartCount := 0, lastRestart := 0\<rparr>)"
proof -
  have a: "stateWrite resaving_host = Completes \<and> disk_state resaving_host = fifth_file"
    by (simp add: resaving_host_def constructor_def fresh_host_def)
  have b: "disk_state torn_host = Unparseable" by (simp add: torn_host_def)
  note t = save_writes_in_place [of resaving_host torn_host]
  from t a have 1: "saveRestartState_moments resaving_host
       = [fifth_file, Unparseable, ParsedObject (currentDoc resaving_host)]"
    by simp
  from t b have 2: "loadRestartState torn_host = Returned (torn_host\<lparr>restartCount := 0, lastRestart := 0\<rparr>)"
    by blast
  from a b 1 2 show ?thesis by simp
qed

text \<open>
  C7 as stated fails. While \<open>resaving_host\<close> saves over the file of an earlier restart, the
  state path at one moment holds a truncated text, which is neither the old document nor
  the new one; and a write that fails on a full disk leaves that text behind.
\<close>

theorem save_can_leave_a_torn_file:
  "Unparseable \<in> set (saveRestartState_moments resaving_host)
   \<and> Unparseable \<noteq> disk_state resaving_host
   \<and> Unparseable \<noteq> ParsedObject (currentDoc resaving_host)
   \<and> disk_state (stateOf (saveRestartState (resaving_host\<lparr>stateWrite := Torn\<rparr>))) = Unparseable"
  by (simp add: saveRestartState_moments_def fs_writeFile_state_moments_def saveRestartState_eq
        resaving_host_def constructor_def fresh_host_def fifth_file_def)

end
